theory Spec2Isabelle
  imports Main "HOL-Library.Word"
begin

unbundle bit_operations_syntax

section \<open>The code generator of go\_marshal\<close>

text \<open>
  The two generator files emit the text of Go methods, line by line, through
  \<open>g.emit\<close>.  The emitted lines are kept here as syntax trees of the Go fragment the
  generator produces; \<open>render\<close> gives back the text of each line as the format string
  of the source writes it.
\<close>

subsection \<open>Emitted Go lines\<close>

text \<open>The bound of a slice expression: a literal \<open>%d\<close> or \<open>%s.SizeBytes()\<close>.\<close>

datatype bound = Lit nat | SizeOf string

datatype goexpr =
    Acc string                 \<comment> \<open>\<open>%s\<close>: the accessor of a field\<close>
  | Deref string               \<comment> \<open>\<open>*%s\<close>\<close>
  | Idx string nat             \<comment> \<open>\<open>%s[0]\<close>\<close>
  | Conv string goexpr         \<comment> \<open>\<open>T(e)\<close>\<close>
  | BoUint nat string bound    \<comment> \<open>\<open>usermem.ByteOrder.Uint16(%s[:2])\<close>\<close>

datatype goline =
    Comment string
  | SetIdx string nat goexpr              \<comment> \<open>\<open>%s[0] = e\<close>\<close>
  | Assign goexpr goexpr                  \<comment> \<open>\<open>%s = e\<close>, \<open>*%s = e\<close>\<close>
  | BoPut nat string bound goexpr         \<comment> \<open>\<open>usermem.ByteOrder.PutUint16(%s[:2], e)\<close>\<close>
  | Reslice string bound                  \<comment> \<open>\<open>%s = %s[%d:]\<close>\<close>
  | CallMarshalBytes string string bound  \<comment> \<open>\<open>%s.MarshalBytes(%s[:%s.SizeBytes()])\<close>\<close>
  | CallUnmarshalBytes string string bound
  | DeclInner string string               \<comment> \<open>\<open>inner := (*%s)(%s)\<close>\<close>
  | FuncHeader string string string string string
      \<comment> \<open>\<open>func (%s *%s) Name(params) result {\<close>\<close>
  | FuncEnd                               \<comment> \<open>the closing brace and an empty line\<close>
  | ReturnInt nat                         \<comment> \<open>\<open>return %d\<close>\<close>
  | ReturnNilSize string                  \<comment> \<open>\<open>return (*%s)(nil).SizeBytes()\<close>\<close>
  | ReturnBool bool                       \<comment> \<open>\<open>return true\<close>\<close>
  | SafecopyCopyIn string string          \<comment> \<open>\<open>safecopy.CopyIn(dst, unsafe.Pointer(%s))\<close>\<close>
  | SafecopyCopyOut string string         \<comment> \<open>\<open>safecopy.CopyOut(unsafe.Pointer(%s), src)\<close>\<close>
  | DeclPtr string                        \<comment> \<open>\<open>ptr := unsafe.Pointer(%s)\<close>\<close>
  | DeclVal                               \<comment> \<open>\<open>val := uintptr(ptr)\<close>\<close>
  | XorVal                                \<comment> \<open>\<open>val = val^0\<close>\<close>
  | VarBuf                                \<comment> \<open>\<open>var buf []byte\<close>\<close>
  | DeclHdr                               \<comment> \<open>\<open>hdr := (*reflect.SliceHeader)(unsafe.Pointer(&buf))\<close>\<close>
  | HdrData                               \<comment> \<open>\<open>hdr.Data = val\<close>\<close>
  | HdrLen string                         \<comment> \<open>\<open>hdr.Len = %s.SizeBytes()\<close>\<close>
  | HdrCap string                         \<comment> \<open>\<open>hdr.Cap = %s.SizeBytes()\<close>\<close>
  | CallCopyOutBytes                      \<comment> \<open>\<open>len, err := task.CopyOutBytes(addr, buf)\<close>\<close>
  | CallCopyInBytes                       \<comment> \<open>\<open>len, err := task.CopyInBytes(addr, buf)\<close>\<close>
  | CallWrite                             \<comment> \<open>\<open>len, err := w.Write(buf)\<close>\<close>
  | KeepAlive string                      \<comment> \<open>\<open>runtime.KeepAlive(%s)\<close>\<close>
  | ReturnLenErr                          \<comment> \<open>\<open>return len, err\<close>\<close>
  | ReturnInt64LenErr                     \<comment> \<open>\<open>return int64(len), err\<close>\<close>

fun show_nat :: "nat \<Rightarrow> string" where
  "show_nat n =
     (if n < 10 then [''0123456789'' ! n]
      else show_nat (n div 10) @ [''0123456789'' ! (n mod 10)])"

declare show_nat.simps [simp del]

fun render_bound :: "bound \<Rightarrow> string" where
  "render_bound (Lit n) = show_nat n"
| "render_bound (SizeOf a) = a @ ''.SizeBytes()''"

fun render_expr :: "goexpr \<Rightarrow> string" where
  "render_expr (Acc a) = a"
| "render_expr (Deref a) = ''*'' @ a"
| "render_expr (Idx b i) = b @ ''['' @ show_nat i @ '']''"
| "render_expr (Conv t e) = t @ ''('' @ render_expr e @ '')''"
| "render_expr (BoUint k b n) =
     ''usermem.ByteOrder.Uint'' @ show_nat k @ ''('' @ b @ ''[:'' @ render_bound n @ ''])''"

fun render :: "goline \<Rightarrow> string" where
  "render (Comment c) = ''// '' @ c"
| "render (SetIdx b i e) = b @ ''['' @ show_nat i @ ''] = '' @ render_expr e"
| "render (Assign l e) = render_expr l @ '' = '' @ render_expr e"
| "render (BoPut k b n e) =
     ''usermem.ByteOrder.PutUint'' @ show_nat k @ ''('' @ b @ ''[:'' @ render_bound n @ ''], ''
       @ render_expr e @ '')''"
| "render (Reslice b n) = b @ '' = '' @ b @ ''['' @ render_bound n @ '':]''"
| "render (CallMarshalBytes a b n) = a @ ''.MarshalBytes('' @ b @ ''[:'' @ render_bound n @ ''])''"
| "render (CallUnmarshalBytes a b n) =
     a @ ''.UnmarshalBytes('' @ b @ ''[:'' @ render_bound n @ ''])''"
| "render (DeclInner t a) = ''inner := (*'' @ t @ '')('' @ a @ '')''"
| "render (FuncHeader rc t name params res) =
     ''func ('' @ rc @ '' *'' @ t @ '') '' @ name @ ''('' @ params @ '') '' @ res @ '' {''"
| "render FuncEnd = ''}''"
| "render (ReturnInt n) = ''return '' @ show_nat n"
| "render (ReturnNilSize t) = ''return (*'' @ t @ '')(nil).SizeBytes()''"
| "render (ReturnBool b) = ''return '' @ (if b then ''true'' else ''false'')"
| "render (SafecopyCopyIn b rc) = ''safecopy.CopyIn('' @ b @ '', unsafe.Pointer('' @ rc @ ''))''"
| "render (SafecopyCopyOut rc b) = ''safecopy.CopyOut(unsafe.Pointer('' @ rc @ ''), '' @ b @ '')''"
| "render (DeclPtr rc) = ''ptr := unsafe.Pointer('' @ rc @ '')''"
| "render DeclVal = ''val := uintptr(ptr)''"
| "render XorVal = ''val = val^0''"
| "render VarBuf = ''var buf []byte''"
| "render DeclHdr = ''hdr := (*reflect.SliceHeader)(unsafe.Pointer(&buf))''"
| "render HdrData = ''hdr.Data = val''"
| "render (HdrLen rc) = ''hdr.Len = '' @ rc @ ''.SizeBytes()''"
| "render (HdrCap rc) = ''hdr.Cap = '' @ rc @ ''.SizeBytes()''"
| "render CallCopyOutBytes = ''len, err := task.CopyOutBytes(addr, buf)''"
| "render CallCopyInBytes = ''len, err := task.CopyInBytes(addr, buf)''"
| "render CallWrite = ''len, err := w.Write(buf)''"
| "render (KeepAlive rc) = ''runtime.KeepAlive('' @ rc @ '')''"
| "render ReturnLenErr = ''return len, err''"
| "render ReturnInt64LenErr = ''return int64(len), err''"

subsection \<open>The generator state\<close>

text \<open>
  \<open>token.Position\<close> as file, line and column; an \<open>ast.Ident\<close> as its name and its
  \<open>token.Pos\<close>.
\<close>

type_synonym Position = "string \<times> nat \<times> nat"

record ident =
  Name :: string
  NamePos :: nat

text \<open>
  \<open>interfaceGenerator\<close>.  The embedded \<open>sourceBuffer\<close> (its file is not among the
  sources) is the list of lines emitted so far, each with the indentation level it was
  emitted at, and the current level.  \<open>t\<close> is kept as the name of the type, \<open>f\<close> as the
  function from \<open>token.Pos\<close> to \<open>token.Position\<close>.  The sets \<open>is\<close>, \<open>ms\<close> and \<open>as\<close> of
  the source are \<open>g_is\<close>, \<open>g_ms\<close>, \<open>g_as\<close>.
\<close>

record interfaceGenerator =
  out :: "(nat \<times> goline) list"
  indent :: nat
  t :: string
  r :: string
  f :: "nat \<Rightarrow> Position"
  g_is :: "string set"
  g_ms :: "string set"
  g_as :: "string set"

text \<open>The statements of a generator function, one after the other.\<close>

definition seq :: "('a \<Rightarrow> 'a) list \<Rightarrow> 'a \<Rightarrow> 'a" where
  "seq hs g = fold (\<lambda>h. h) hs g"

definition emit :: "goline \<Rightarrow> interfaceGenerator \<Rightarrow> interfaceGenerator" where
  "emit l g = g\<lparr>out := out g @ [(indent g, l)]\<rparr>"

definition inIndent ::
  "(interfaceGenerator \<Rightarrow> interfaceGenerator) \<Rightarrow> interfaceGenerator \<Rightarrow> interfaceGenerator" where
  "inIndent body g =
     (let g' = body (g\<lparr>indent := indent g + 1\<rparr>) in g'\<lparr>indent := indent g' - 1\<rparr>)"

definition typeName :: "interfaceGenerator \<Rightarrow> string" where
  "typeName g = t g"

definition recordUsedMarshallable :: "string \<Rightarrow> interfaceGenerator \<Rightarrow> interfaceGenerator" where
  "recordUsedMarshallable m g = g\<lparr>g_ms := insert m (g_ms g)\<rparr>"

definition recordUsedImport :: "string \<Rightarrow> interfaceGenerator \<Rightarrow> interfaceGenerator" where
  "recordUsedImport i g = g\<lparr>g_is := insert i (g_is g)\<rparr>"

definition recordPotentiallyNonPackedField ::
  "string \<Rightarrow> interfaceGenerator \<Rightarrow> interfaceGenerator" where
  "recordPotentiallyNonPackedField fieldName g = g\<lparr>g_as := insert fieldName (g_as g)\<rparr>"

text \<open>\<open>newInterfaceGenerator\<close>; the receiver name comes from \<open>receiverName\<close>, which is not
  among the sources, and is passed in.\<close>

definition newInterfaceGenerator ::
  "string \<Rightarrow> string \<Rightarrow> (nat \<Rightarrow> Position) \<Rightarrow> interfaceGenerator" where
  "newInterfaceGenerator tn rc fset =
     recordUsedMarshallable tn
       \<lparr>out = [], indent = 0, t = tn, r = rc, f = fset, g_is = {}, g_ms = {}, g_as = {}\<rparr>"

definition fieldAccessor :: "interfaceGenerator \<Rightarrow> ident \<Rightarrow> string" where
  "fieldAccessor g n = r g @ ''.'' @ Name n"

subsection \<open>Scalars\<close>

definition scalarSize :: "ident \<Rightarrow> nat \<times> bool" where
  "scalarSize tp =
     (if Name tp = ''int8'' \<or> Name tp = ''uint8'' \<or> Name tp = ''byte'' then (1, False)
      else if Name tp = ''int16'' \<or> Name tp = ''uint16'' then (2, False)
      else if Name tp = ''int32'' \<or> Name tp = ''uint32'' then (4, False)
      else if Name tp = ''int64'' \<or> Name tp = ''uint64'' then (8, False)
      else (0, True))"

definition shift :: "string \<Rightarrow> nat \<Rightarrow> interfaceGenerator \<Rightarrow> interfaceGenerator" where
  "shift bufVar n = emit (Reslice bufVar (Lit n))"

definition shiftDynamic :: "string \<Rightarrow> string \<Rightarrow> interfaceGenerator \<Rightarrow> interfaceGenerator" where
  "shiftDynamic bufVar name = emit (Reslice bufVar (SizeOf name))"

definition marshalScalar ::
  "string \<Rightarrow> string \<Rightarrow> string \<Rightarrow> interfaceGenerator \<Rightarrow> interfaceGenerator" where
  "marshalScalar accessor typ bufVar =
     (if typ = ''int8'' \<or> typ = ''uint8'' \<or> typ = ''byte'' then
        seq [emit (SetIdx bufVar 0 (Conv ''byte'' (Acc accessor))),
        shift bufVar 1]
      else if typ = ''int16'' \<or> typ = ''uint16'' then
        seq [recordUsedImport ''usermem'',
        emit (BoPut 16 bufVar (Lit 2) (Conv ''uint16'' (Acc accessor))),
        shift bufVar 2]
      else if typ = ''int32'' \<or> typ = ''uint32'' then
        seq [recordUsedImport ''usermem'',
        emit (BoPut 32 bufVar (Lit 4) (Conv ''uint32'' (Acc accessor))),
        shift bufVar 4]
      else if typ = ''int64'' \<or> typ = ''uint64'' then
        seq [recordUsedImport ''usermem'',
        emit (BoPut 64 bufVar (Lit 8) (Conv ''uint64'' (Acc accessor))),
        shift bufVar 8]
      else
        seq [emit (CallMarshalBytes accessor bufVar (SizeOf accessor)),
        shiftDynamic bufVar accessor])"

definition unmarshalScalar ::
  "string \<Rightarrow> string \<Rightarrow> string \<Rightarrow> interfaceGenerator \<Rightarrow> interfaceGenerator" where
  "unmarshalScalar accessor typ bufVar =
     (if typ = ''int8'' then
        seq [emit (Assign (Acc accessor) (Conv ''int8'' (Idx bufVar 0))),
        shift bufVar 1]
      else if typ = ''uint8'' then
        seq [emit (Assign (Acc accessor) (Conv ''uint8'' (Idx bufVar 0))),
        shift bufVar 1]
      else if typ = ''byte'' then
        seq [emit (Assign (Acc accessor) (Idx bufVar 0)),
        shift bufVar 1]
      else if typ = ''int16'' then
        seq [recordUsedImport ''usermem'',
        emit (Assign (Acc accessor) (Conv ''int16'' (BoUint 16 bufVar (Lit 2)))),
        shift bufVar 2]
      else if typ = ''uint16'' then
        seq [recordUsedImport ''usermem'',
        emit (Assign (Acc accessor) (BoUint 16 bufVar (Lit 2))),
        shift bufVar 2]
      else if typ = ''int32'' then
        seq [recordUsedImport ''usermem'',
        emit (Assign (Acc accessor) (Conv ''int32'' (BoUint 32 bufVar (Lit 4)))),
        shift bufVar 4]
      else if typ = ''uint32'' then
        seq [recordUsedImport ''usermem'',
        emit (Assign (Acc accessor) (BoUint 32 bufVar (Lit 4))),
        shift bufVar 4]
      else if typ = ''int64'' then
        seq [recordUsedImport ''usermem'',
        emit (Assign (Acc accessor) (Conv ''int64'' (BoUint 64 bufVar (Lit 8)))),
        shift bufVar 8]
      else if typ = ''uint64'' then
        seq [recordUsedImport ''usermem'',
        emit (Assign (Acc accessor) (BoUint 64 bufVar (Lit 8))),
        shift bufVar 8]
      else
        seq [emit (CallUnmarshalBytes accessor bufVar (SizeOf accessor)),
        shiftDynamic bufVar accessor,
        recordPotentiallyNonPackedField accessor])"

subsection \<open>Newtypes on primitives\<close>

definition marshalPrimitiveScalar ::
  "string \<Rightarrow> string \<Rightarrow> string \<Rightarrow> interfaceGenerator \<Rightarrow> interfaceGenerator" where
  "marshalPrimitiveScalar accessor typ bufVar =
     (if typ = ''int8'' \<or> typ = ''uint8'' \<or> typ = ''byte'' then
        emit (SetIdx bufVar 0 (Conv ''byte'' (Deref accessor)))
      else if typ = ''int16'' \<or> typ = ''uint16'' then
        seq [recordUsedImport ''usermem'',
        emit (BoPut 16 bufVar (Lit 2) (Conv ''uint16'' (Deref accessor)))]
      else if typ = ''int32'' \<or> typ = ''uint32'' then
        seq [recordUsedImport ''usermem'',
        emit (BoPut 32 bufVar (Lit 4) (Conv ''uint32'' (Deref accessor)))]
      else if typ = ''int64'' \<or> typ = ''uint64'' then
        seq [recordUsedImport ''usermem'',
        emit (BoPut 64 bufVar (Lit 8) (Conv ''uint64'' (Deref accessor)))]
      else
        seq [emit (Comment ''Explicilty cast to the underlying type before dispatching to''),
        emit (Comment (''MarshalBytes, so we don't recursively call '' @ accessor
                        @ ''.MarshalBytes'')),
        emit (DeclInner typ accessor),
        emit (CallMarshalBytes ''inner'' bufVar (SizeOf accessor))])"

definition unmarshalPrimitiveScalar ::
  "string \<Rightarrow> string \<Rightarrow> string \<Rightarrow> string \<Rightarrow> interfaceGenerator \<Rightarrow> interfaceGenerator" where
  "unmarshalPrimitiveScalar accessor typ bufVar typeCast =
     (if typ = ''int8'' then
        emit (Assign (Deref accessor) (Conv typeCast (Conv ''int8'' (Idx bufVar 0))))
      else if typ = ''uint8'' then
        emit (Assign (Deref accessor) (Conv typeCast (Conv ''uint8'' (Idx bufVar 0))))
      else if typ = ''byte'' then
        emit (Assign (Deref accessor) (Conv typeCast (Idx bufVar 0)))
      else if typ = ''int16'' then
        seq [recordUsedImport ''usermem'',
        emit (Assign (Deref accessor)
                (Conv typeCast (Conv ''int16'' (BoUint 16 bufVar (Lit 2)))))]
      else if typ = ''uint16'' then
        seq [recordUsedImport ''usermem'',
        emit (Assign (Deref accessor) (Conv typeCast (BoUint 16 bufVar (Lit 2))))]
      else if typ = ''int32'' then
        seq [recordUsedImport ''usermem'',
        emit (Assign (Deref accessor)
                (Conv typeCast (Conv ''int32'' (BoUint 32 bufVar (Lit 4)))))]
      else if typ = ''uint32'' then
        seq [recordUsedImport ''usermem'',
        emit (Assign (Deref accessor) (Conv typeCast (BoUint 32 bufVar (Lit 4))))]
      else if typ = ''int64'' then
        seq [recordUsedImport ''usermem'',
        emit (Assign (Deref accessor)
                (Conv typeCast (Conv ''int64'' (BoUint 64 bufVar (Lit 8)))))]
      else if typ = ''uint64'' then
        seq [recordUsedImport ''usermem'',
        emit (Assign (Deref accessor) (Conv typeCast (BoUint 64 bufVar (Lit 8))))]
      else
        seq [emit (Comment ''Explicilty cast to the underlying type before dispatching to''),
        emit (Comment (''UnmarshalBytes, so we don't recursively call '' @ accessor
                        @ ''.UnmarshalBytes'')),
        emit (DeclInner typ accessor),
        emit (CallUnmarshalBytes ''inner'' bufVar (SizeOf accessor))])"

text \<open>
  \<open>validatePrimitiveNewtype\<close>.  \<open>abortAt\<close> "aborts the go\_marshal tool with the given
  error message, with a reference position to the input source": an abort is the value
  \<open>Inl\<close> of the position and the message.  A validation that returns gives \<open>Inr\<close> of the
  debug messages it logged through \<open>debugfAt\<close>.
\<close>

definition validatePrimitiveNewtype ::
  "interfaceGenerator \<Rightarrow> ident \<Rightarrow> (Position \<times> string) + (Position \<times> string) list" where
  "validatePrimitiveNewtype g tp =
     (if Name tp = ''int8'' \<or> Name tp = ''uint8'' \<or> Name tp = ''byte'' \<or> Name tp = ''int16''
         \<or> Name tp = ''uint16'' \<or> Name tp = ''int32'' \<or> Name tp = ''uint32''
         \<or> Name tp = ''int64'' \<or> Name tp = ''uint64'' then Inr []
      else if Name tp = ''int'' then
        Inl (f g (NamePos tp), ''Type 'int' has ambiguous width, use int32 or int64'')
      else if Name tp = ''uint'' then
        Inl (f g (NamePos tp), ''Type 'uint' has ambiguous width, use uint32 or uint64'')
      else if Name tp = ''string'' then
        Inl (f g (NamePos tp),
          ''Type 'string' is dynamically-sized and cannot be marshalled, use a fixed size byte array '[...]byte' instead'')
      else
        Inr [(f g (NamePos tp),
          ''Found derived type '' @ [CHR 0x27] @ Name tp @ [CHR 0x27]
            @ '', will attempt dispatch via marshal.Marshallable.'' @ [CHR 0x0A])])"

text \<open>
  \<open>emitMarshallableForPrimitiveNewtype\<close>: the methods emitted for a newtype on the
  type named \<open>nt\<close>, in the order of the source.  The lines that the source repeats in
  \<open>CopyOut\<close>, \<open>CopyIn\<close> and \<open>WriteTo\<close> are written once, in the two definitions
  that follow.
\<close>

definition emitBypassEscapeAnalysis :: "string \<Rightarrow> interfaceGenerator \<Rightarrow> interfaceGenerator" where
  "emitBypassEscapeAnalysis rc =
     seq [emit (Comment (''Bypass escape analysis on '' @ rc
                     @ ''. The no-op arithmetic operation on the'')),
     emit (Comment (''pointer makes the compiler think val doesn't depend on '' @ rc @ ''.'')),
     emit (Comment ''See src/runtime/stubs.go:noescape() in the golang toolchain.''),
     emit (DeclPtr rc),
     emit DeclVal,
     emit XorVal]"

definition emitSliceOverReceiver :: "string \<Rightarrow> interfaceGenerator \<Rightarrow> interfaceGenerator" where
  "emitSliceOverReceiver rc =
     seq [emit (Comment (''Construct a slice backed by '' @ rc @ [CHR 0x27]
                     @ ''s underlying memory.'')),
     emit VarBuf,
     emit DeclHdr,
     emit HdrData,
     emit (HdrLen rc),
     emit (HdrCap rc)]"

definition emitMarshallableForPrimitiveNewtype ::
  "ident \<Rightarrow> interfaceGenerator \<Rightarrow> interfaceGenerator" where
  "emitMarshallableForPrimitiveNewtype nt g =
    (seq [emit (Comment ''SizeBytes implements marshal.Marshallable.SizeBytes.''),
     emit (FuncHeader (r g) (typeName g) ''SizeBytes'' [] ''int''),
     inIndent
       (case scalarSize nt of
          (sz, dynamic) \<Rightarrow>
            if \<not> dynamic then emit (ReturnInt sz) else emit (ReturnNilSize (Name nt))),
     emit FuncEnd,

     emit (Comment ''MarshalBytes implements marshal.Marshallable.MarshalBytes.''),
     emit (FuncHeader (r g) (typeName g) ''MarshalBytes'' ''dst []byte'' []),
     inIndent (marshalPrimitiveScalar (r g) (Name nt) ''dst''),
     emit FuncEnd,

     emit (Comment ''UnmarshalBytes implements marshal.Marshallable.UnmarshalBytes.''),
     emit (FuncHeader (r g) (typeName g) ''UnmarshalBytes'' ''src []byte'' []),
     inIndent (unmarshalPrimitiveScalar (r g) (Name nt) ''src'' (typeName g)),
     emit FuncEnd,

     emit (Comment ''Packed implements marshal.Marshallable.Packed.''),
     emit (FuncHeader (r g) (typeName g) ''Packed'' [] ''bool''),
     inIndent
       (seq [emit (Comment ''Scalar newtypes are always packed.''),
        emit (ReturnBool True)]),
     emit FuncEnd,

     emit (Comment ''MarshalUnsafe implements marshal.Marshallable.MarshalUnsafe.''),
     recordUsedImport ''safecopy'',
     recordUsedImport ''unsafe'',
     emit (FuncHeader (r g) (typeName g) ''MarshalUnsafe'' ''dst []byte'' []),
     inIndent (emit (SafecopyCopyIn ''dst'' (r g))),
     emit FuncEnd,

     emit (Comment ''UnmarshalUnsafe implements marshal.Marshallable.UnmarshalUnsafe.''),
     recordUsedImport ''safecopy'',
     recordUsedImport ''unsafe'',
     emit (FuncHeader (r g) (typeName g) ''UnmarshalUnsafe'' ''src []byte'' []),
     inIndent (emit (SafecopyCopyOut (r g) ''src'')),
     emit FuncEnd,

     emit (Comment ''CopyOut implements marshal.Marshallable.CopyOut.''),
     recordUsedImport ''marshal'',
     recordUsedImport ''usermem'',
     emit (FuncHeader (r g) (typeName g) ''CopyOut''
             ''task marshal.Task, addr usermem.Addr'' ''(int, error)''),
     inIndent
       (seq [emitBypassEscapeAnalysis (r g),
        emitSliceOverReceiver (r g),
        emit CallCopyOutBytes,
        emit (Comment (''Since we bypassed the compiler's escape analysis, indicate that ''
                        @ r g)),
        emit (Comment ''must live until after the CopyOutBytes.''),
        emit (KeepAlive (r g)),
        emit ReturnLenErr]),
     emit FuncEnd,

     emit (Comment ''CopyIn implements marshal.Marshallable.CopyIn.''),
     recordUsedImport ''marshal'',
     recordUsedImport ''usermem'',
     emit (FuncHeader (r g) (typeName g) ''CopyIn''
             ''task marshal.Task, addr usermem.Addr'' ''(int, error)''),
     inIndent
       (seq [emitBypassEscapeAnalysis (r g),
        emitSliceOverReceiver (r g),
        emit CallCopyInBytes,
        emit (Comment (''Since we bypassed the compiler's escape analysis, indicate that ''
                        @ r g)),
        emit (Comment ''must live until after the CopyInBytes.''),
        emit (KeepAlive (r g)),
        emit ReturnLenErr]),
     emit FuncEnd,

     emit (Comment ''WriteTo implements io.WriterTo.WriteTo.''),
     recordUsedImport ''io'',
     emit (FuncHeader (r g) (typeName g) ''WriteTo'' ''w io.Writer'' ''(int64, error)''),
     inIndent
       (seq [emitBypassEscapeAnalysis (r g),
        emitSliceOverReceiver (r g),
        emit CallWrite,
        emit (Comment (''Since we bypassed the compiler's escape analysis, indicate that ''
                        @ r g)),
        emit (Comment ''must live until after the Write.''),
        emit (KeepAlive (r g)),
        emit ReturnInt64LenErr]),
     emit FuncEnd]) g"

text \<open>The nine fixed-width primitive type names.\<close>

definition is_primitive :: "string \<Rightarrow> bool" where
  "is_primitive typ \<longleftrightarrow>
     typ \<in> {''int8'', ''uint8'', ''byte'', ''int16'', ''uint16'', ''int32'', ''uint32'',
            ''int64'', ''uint64''}"

text \<open>A file set for examples: every position is in \<open>s.go\<close>, on the line of its number.\<close>

definition examplePositions :: "nat \<Rightarrow> Position" where
  "examplePositions p = (''s.go'', p, 0)"

section \<open>The meaning of the emitted Go\<close>

subsection \<open>Scalar values\<close>

text \<open>The fixed-width integer types of Go; \<open>byte\<close> is an alias of \<open>uint8\<close>.\<close>

datatype prim = Int8 | Uint8 | Int16 | Uint16 | Int32 | Uint32 | Int64 | Uint64

definition prim_of_name :: "string \<Rightarrow> prim option" where
  "prim_of_name n =
     (if n = ''int8'' then Some Int8
      else if n = ''uint8'' \<or> n = ''byte'' then Some Uint8
      else if n = ''int16'' then Some Int16
      else if n = ''uint16'' then Some Uint16
      else if n = ''int32'' then Some Int32
      else if n = ''uint32'' then Some Uint32
      else if n = ''int64'' then Some Int64
      else if n = ''uint64'' then Some Uint64
      else None)"

datatype goval =
    I8 "8 word" | U8 "8 word" | I16 "16 word" | U16 "16 word"
  | I32 "32 word" | U32 "32 word" | I64 "64 word" | U64 "64 word"

fun type_of :: "goval \<Rightarrow> prim" where
  "type_of (I8 w) = Int8"
| "type_of (U8 w) = Uint8"
| "type_of (I16 w) = Int16"
| "type_of (U16 w) = Uint16"
| "type_of (I32 w) = Int32"
| "type_of (U32 w) = Uint32"
| "type_of (I64 w) = Int64"
| "type_of (U64 w) = Uint64"

text \<open>The size of a value in bytes.\<close>

fun sizeof :: "prim \<Rightarrow> nat" where
  "sizeof Int8 = 1"
| "sizeof Uint8 = 1"
| "sizeof Int16 = 2"
| "sizeof Uint16 = 2"
| "sizeof Int32 = 4"
| "sizeof Uint32 = 4"
| "sizeof Int64 = 8"
| "sizeof Uint64 = 8"

text \<open>
  Conversion between integer types, as the Go specification has it: a signed value is
  sign extended and an unsigned one zero extended to infinite precision, then truncated to
  the size of the result type.
\<close>

fun int_of :: "goval \<Rightarrow> int" where
  "int_of (I8 w) = sint w"
| "int_of (U8 w) = uint w"
| "int_of (I16 w) = sint w"
| "int_of (U16 w) = uint w"
| "int_of (I32 w) = sint w"
| "int_of (U32 w) = uint w"
| "int_of (I64 w) = sint w"
| "int_of (U64 w) = uint w"

fun truncate :: "prim \<Rightarrow> int \<Rightarrow> goval" where
  "truncate Int8 i = I8 (word_of_int i)"
| "truncate Uint8 i = U8 (word_of_int i)"
| "truncate Int16 i = I16 (word_of_int i)"
| "truncate Uint16 i = U16 (word_of_int i)"
| "truncate Int32 i = I32 (word_of_int i)"
| "truncate Uint32 i = U32 (word_of_int i)"
| "truncate Int64 i = I64 (word_of_int i)"
| "truncate Uint64 i = U64 (word_of_int i)"

definition convert :: "prim \<Rightarrow> goval \<Rightarrow> goval" where
  "convert p v = truncate p (int_of v)"

subsection \<open>Byte orders\<close>

text \<open>
  The two implementations of \<open>binary.ByteOrder\<close>.  \<open>PutUintN\<close> writes byte \<open>i\<close> as
  \<open>byte(v >> (8 * i))\<close> in little-endian order and in the reverse order in big-endian
  order; \<open>UintN\<close> reads \<open>b[0] | b[1] << 8 | ...\<close>.
\<close>

datatype byte_order = LittleEndian | BigEndian

definition le_bytes :: "nat \<Rightarrow> 'a::len word \<Rightarrow> 8 word list" where
  "le_bytes n w = map (\<lambda>i. ucast (drop_bit (8 * i) w)) [0..<n]"

fun le_word :: "8 word list \<Rightarrow> 'a::len word" where
  "le_word [] = 0"
| "le_word (b # bs) = ucast b OR push_bit 8 (le_word bs)"

definition PutUint :: "byte_order \<Rightarrow> nat \<Rightarrow> 'a::len word \<Rightarrow> 8 word list" where
  "PutUint bo n w = (case bo of LittleEndian \<Rightarrow> le_bytes n w | BigEndian \<Rightarrow> rev (le_bytes n w))"

definition GetUint :: "byte_order \<Rightarrow> 8 word list \<Rightarrow> 'a::len word" where
  "GetUint bo bs = (case bo of LittleEndian \<Rightarrow> le_word bs | BigEndian \<Rightarrow> le_word (rev bs))"

text \<open>The bits of a value, in a byte order: what the memory of the host holds for it.\<close>

fun val_bytes :: "byte_order \<Rightarrow> goval \<Rightarrow> 8 word list" where
  "val_bytes h (I8 w) = PutUint h 1 w"
| "val_bytes h (U8 w) = PutUint h 1 w"
| "val_bytes h (I16 w) = PutUint h 2 w"
| "val_bytes h (U16 w) = PutUint h 2 w"
| "val_bytes h (I32 w) = PutUint h 4 w"
| "val_bytes h (U32 w) = PutUint h 4 w"
| "val_bytes h (I64 w) = PutUint h 8 w"
| "val_bytes h (U64 w) = PutUint h 8 w"

fun bytes_val :: "byte_order \<Rightarrow> prim \<Rightarrow> 8 word list \<Rightarrow> goval" where
  "bytes_val h Int8 bs = I8 (GetUint h bs)"
| "bytes_val h Uint8 bs = U8 (GetUint h bs)"
| "bytes_val h Int16 bs = I16 (GetUint h bs)"
| "bytes_val h Uint16 bs = U16 (GetUint h bs)"
| "bytes_val h Int32 bs = I32 (GetUint h bs)"
| "bytes_val h Uint32 bs = U32 (GetUint h bs)"
| "bytes_val h Int64 bs = I64 (GetUint h bs)"
| "bytes_val h Uint64 bs = U64 (GetUint h bs)"

subsection \<open>Memory, slices and the state of a call\<close>

type_synonym memory = "nat \<Rightarrow> 8 word"

definition load :: "memory \<Rightarrow> nat \<Rightarrow> nat \<Rightarrow> 8 word list" where
  "load m a n = map m [a..<a + n]"

definition store :: "memory \<Rightarrow> nat \<Rightarrow> 8 word list \<Rightarrow> memory" where
  "store m a bs = (\<lambda>i. if a \<le> i \<and> i < a + length bs then bs ! (i - a) else m i)"

text \<open>A slice of bytes, as \<open>reflect.SliceHeader\<close> has it.\<close>

record slice =
  Data :: nat
  Len :: nat
  Cap :: nat

text \<open>What a method returns.\<close>

datatype retval =
    RInt nat
  | RBool bool
  | RIntErr int "string option"
  | RInt64Err int "string option"

text \<open>What the emitted code hands to the task and to the writer.\<close>

datatype event =
    CopyOutBytesCall nat "8 word list"
  | CopyInBytesCall nat nat
  | WriteCall "8 word list"

text \<open>
  The state of a call of an emitted method.
  \<^item> \<open>mem\<close>: the memory of the process, byte by byte.
  \<^item> \<open>slices\<close>: the slice variables (\<open>dst\<close>, \<open>src\<close>, \<open>buf\<close>).
  \<^item> \<open>scalars\<close>: for the accessor of a scalar field, its address and its type.
  \<^item> \<open>ptrs\<close>: for a pointer receiver, the address it points to and, where the type
    pointed to is a newtype on a primitive, that primitive.
  \<^item> \<open>named\<close>: the underlying primitive of a named type.
  \<^item> \<open>typeSizes\<close>: for a type \<open>T\<close> generated elsewhere, what \<open>(*T)(nil).SizeBytes()\<close>
    returns.
  \<^item> \<open>byteOrder\<close>: \<open>usermem.ByteOrder\<close>; \<open>hostOrder\<close>: the order in which the host keeps
    an integer in memory.
  \<^item> \<open>uintptrs\<close>: the locals \<open>ptr\<close> and \<open>val\<close>; \<open>hdr\<close>: the slice variable whose header
    \<open>hdr\<close> points to; \<open>len_err\<close>: the locals \<open>len\<close> and \<open>err\<close>.
  \<^item> \<open>addr\<close>, \<open>task_CopyOutBytes\<close>, \<open>task_CopyInBytes\<close>, \<open>w_Write\<close>: the arguments
    \<open>addr\<close>, \<open>task\<close> and \<open>w\<close>.  The task and the writer are interfaces implemented
    elsewhere: any functions, from what they are given to the count and error they report
    (and, for \<open>CopyInBytes\<close>, the bytes read).
  \<^item> \<open>trace\<close>: the calls made on the task and the writer; \<open>ret\<close>: the values returned.
\<close>

record gostate =
  mem :: memory
  slices :: "string \<rightharpoonup> slice"
  scalars :: "string \<rightharpoonup> nat \<times> prim"
  ptrs :: "string \<rightharpoonup> nat \<times> prim option"
  named :: "string \<rightharpoonup> prim"
  typeSizes :: "string \<rightharpoonup> nat"
  byteOrder :: byte_order
  hostOrder :: byte_order
  uintptrs :: "string \<rightharpoonup> nat"
  hdr :: "string option"
  len_err :: "(int \<times> string option) option"
  addr :: nat
  task_CopyOutBytes :: "nat \<Rightarrow> 8 word list \<Rightarrow> int \<times> string option"
  task_CopyInBytes :: "nat \<Rightarrow> nat \<Rightarrow> 8 word list \<times> int \<times> string option"
  w_Write :: "8 word list \<Rightarrow> int \<times> string option"
  trace :: "event list"
  ret :: "retval option"

datatype gopanic =
    IndexOutOfRange
  | SliceBoundsOutOfRange
  | NilDereference
  | DoesNotCompile
  | GeneratedElsewhere

text \<open>Reading and writing a scalar in memory, in the order of the host.\<close>

definition read_scalar :: "gostate \<Rightarrow> nat \<Rightarrow> prim \<Rightarrow> goval" where
  "read_scalar s a p = bytes_val (hostOrder s) p (load (mem s) a (sizeof p))"

definition write_scalar :: "gostate \<Rightarrow> nat \<Rightarrow> goval \<Rightarrow> gostate" where
  "write_scalar s a v = s\<lparr>mem := store (mem s) a (val_bytes (hostOrder s) v)\<rparr>"

text \<open>
  The slice \<open>b[:n]\<close>: it panics when \<open>n\<close> is beyond the capacity of \<open>b\<close>.
\<close>

definition slice_to :: "gostate \<Rightarrow> string \<Rightarrow> nat \<Rightarrow> gopanic + slice" where
  "slice_to s b n =
     (case slices s b of
        None \<Rightarrow> Inl DoesNotCompile
      | Some sl \<Rightarrow> if n \<le> Cap sl then Inr (sl\<lparr>Len := n\<rparr>) else Inl SliceBoundsOutOfRange)"

subsection \<open>Expressions and lines\<close>

text \<open>
  The first argument of \<open>eval\<close> and \<open>exec\<close> gives the value of \<open>%s.SizeBytes()\<close> for
  an identifier.
\<close>

fun eval_bound :: "(string \<Rightarrow> nat option) \<Rightarrow> bound \<Rightarrow> gopanic + nat" where
  "eval_bound sb (Lit n) = Inr n"
| "eval_bound sb (SizeOf a) = (case sb a of None \<Rightarrow> Inl GeneratedElsewhere | Some n \<Rightarrow> Inr n)"

fun eval :: "(string \<Rightarrow> nat option) \<Rightarrow> gostate \<Rightarrow> goexpr \<Rightarrow> gopanic + goval" where
  "eval sb s (Acc a) =
     (case scalars s a of
        None \<Rightarrow> Inl DoesNotCompile
      | Some (p, ty) \<Rightarrow> Inr (read_scalar s p ty))"
| "eval sb s (Deref a) =
     (case ptrs s a of
        None \<Rightarrow> Inl NilDereference
      | Some (p, None) \<Rightarrow> Inl DoesNotCompile
      | Some (p, Some ty) \<Rightarrow> Inr (read_scalar s p ty))"
| "eval sb s (Idx b i) =
     (case slices s b of
        None \<Rightarrow> Inl DoesNotCompile
      | Some sl \<Rightarrow> if i < Len sl then Inr (U8 (mem s (Data sl + i))) else Inl IndexOutOfRange)"
| "eval sb s (Conv tn e) =
     (case eval sb s e of
        Inl x \<Rightarrow> Inl x
      | Inr v \<Rightarrow>
          (case prim_of_name tn of
             Some p \<Rightarrow> Inr (convert p v)
           | None \<Rightarrow>
               (case named s tn of
                  Some p \<Rightarrow> Inr (convert p v)
                | None \<Rightarrow> Inl DoesNotCompile)))"
| "eval sb s (BoUint k b n) =
     (case eval_bound sb n of
        Inl x \<Rightarrow> Inl x
      | Inr n' \<Rightarrow>
          (case slice_to s b n' of
             Inl x \<Rightarrow> Inl x
           | Inr sl \<Rightarrow>
               if Len sl < k div 8 then Inl IndexOutOfRange
               else if k = 16 then
                 Inr (U16 (GetUint (byteOrder s) (load (mem s) (Data sl) 2)))
               else if k = 32 then
                 Inr (U32 (GetUint (byteOrder s) (load (mem s) (Data sl) 4)))
               else if k = 64 then
                 Inr (U64 (GetUint (byteOrder s) (load (mem s) (Data sl) 8)))
               else Inl DoesNotCompile))"

text \<open>An assignment to a scalar at an address: the types must agree.\<close>

definition assign_at :: "gostate \<Rightarrow> nat \<Rightarrow> prim \<Rightarrow> goval \<Rightarrow> gopanic + gostate" where
  "assign_at s p ty v = (if type_of v = ty then Inr (write_scalar s p v) else Inl DoesNotCompile)"

text \<open>
  Modelled from the spec: \<open>safecopy.CopyIn\<close> and \<open>safecopy.CopyOut\<close>, which are not
  among the sources.  The spec has them "perform a raw bulk byte transfer ... between the
  instance's memory and the buffer, bypassing per-field encode/decode".  The emitted calls
  pass the buffer and the pointer only, so the number of bytes moved is the length of the
  buffer.
\<close>

definition safecopy_CopyIn :: "gostate \<Rightarrow> slice \<Rightarrow> nat \<Rightarrow> gostate" where
  "safecopy_CopyIn s dst p = s\<lparr>mem := store (mem s) (Data dst) (load (mem s) p (Len dst))\<rparr>"

definition safecopy_CopyOut :: "gostate \<Rightarrow> nat \<Rightarrow> slice \<Rightarrow> gostate" where
  "safecopy_CopyOut s p src = s\<lparr>mem := store (mem s) p (load (mem s) (Data src) (Len src))\<rparr>"

fun exec :: "(string \<Rightarrow> nat option) \<Rightarrow> goline \<Rightarrow> gostate \<Rightarrow> gopanic + gostate" where
  "exec sb (Comment c) s = Inr s"
| "exec sb (SetIdx b i e) s =
     (case eval sb s e of
        Inl x \<Rightarrow> Inl x
      | Inr (U8 w) \<Rightarrow>
          (case slices s b of
             None \<Rightarrow> Inl DoesNotCompile
           | Some sl \<Rightarrow>
               if i < Len sl then Inr (s\<lparr>mem := (mem s)(Data sl + i := w)\<rparr>)
               else Inl IndexOutOfRange)
      | Inr _ \<Rightarrow> Inl DoesNotCompile)"
| "exec sb (Assign l e) s =
     (case eval sb s e of
        Inl x \<Rightarrow> Inl x
      | Inr v \<Rightarrow>
          (case l of
             Acc a \<Rightarrow>
               (case scalars s a of
                  None \<Rightarrow> Inl DoesNotCompile
                | Some (p, ty) \<Rightarrow> assign_at s p ty v)
           | Deref a \<Rightarrow>
               (case ptrs s a of
                  None \<Rightarrow> Inl NilDereference
                | Some (p, None) \<Rightarrow> Inl DoesNotCompile
                | Some (p, Some ty) \<Rightarrow> assign_at s p ty v)
           | _ \<Rightarrow> Inl DoesNotCompile))"
| "exec sb (BoPut k b n e) s =
     (case eval sb s e of
        Inl x \<Rightarrow> Inl x
      | Inr v \<Rightarrow>
          (case eval_bound sb n of
             Inl x \<Rightarrow> Inl x
           | Inr n' \<Rightarrow>
               (case slice_to s b n' of
                  Inl x \<Rightarrow> Inl x
                | Inr sl \<Rightarrow>
                    if Len sl < k div 8 then Inl IndexOutOfRange
                    else
                      (case v of
                         U16 w \<Rightarrow>
                           if k = 16 then
                             Inr (s\<lparr>mem := store (mem s) (Data sl) (PutUint (byteOrder s) 2 w)\<rparr>)
                           else Inl DoesNotCompile
                       | U32 w \<Rightarrow>
                           if k = 32 then
                             Inr (s\<lparr>mem := store (mem s) (Data sl) (PutUint (byteOrder s) 4 w)\<rparr>)
                           else Inl DoesNotCompile
                       | U64 w \<Rightarrow>
                           if k = 64 then
                             Inr (s\<lparr>mem := store (mem s) (Data sl) (PutUint (byteOrder s) 8 w)\<rparr>)
                           else Inl DoesNotCompile
                       | _ \<Rightarrow> Inl DoesNotCompile))))"
| "exec sb (Reslice b n) s =
     (case eval_bound sb n of
        Inl x \<Rightarrow> Inl x
      | Inr n' \<Rightarrow>
          (case slices s b of
             None \<Rightarrow> Inl DoesNotCompile
           | Some sl \<Rightarrow>
               if n' \<le> Len sl then
                 Inr (s\<lparr>slices := (slices s)
                        (b \<mapsto> \<lparr>Data = Data sl + n', Len = Len sl - n', Cap = Cap sl - n'\<rparr>)\<rparr>)
               else Inl SliceBoundsOutOfRange))"
| "exec sb (CallMarshalBytes a b n) s = Inl GeneratedElsewhere"
| "exec sb (CallUnmarshalBytes a b n) s = Inl GeneratedElsewhere"
| "exec sb (DeclInner tn a) s = Inl GeneratedElsewhere"
| "exec sb (FuncHeader rc tn name params res) s = Inl DoesNotCompile"
| "exec sb FuncEnd s = Inl DoesNotCompile"
| "exec sb (ReturnInt n) s = Inr (s\<lparr>ret := Some (RInt n)\<rparr>)"
| "exec sb (ReturnNilSize tn) s =
     (case typeSizes s tn of
        None \<Rightarrow> Inl GeneratedElsewhere
      | Some n \<Rightarrow> Inr (s\<lparr>ret := Some (RInt n)\<rparr>))"
| "exec sb (ReturnBool b) s = Inr (s\<lparr>ret := Some (RBool b)\<rparr>)"
| "exec sb (SafecopyCopyIn b rc) s =
     (case slices s b of
        None \<Rightarrow> Inl DoesNotCompile
      | Some sl \<Rightarrow>
          (case ptrs s rc of
             None \<Rightarrow> Inl NilDereference
           | Some (p, ty) \<Rightarrow> Inr (safecopy_CopyIn s sl p)))"
| "exec sb (SafecopyCopyOut rc b) s =
     (case slices s b of
        None \<Rightarrow> Inl DoesNotCompile
      | Some sl \<Rightarrow>
          (case ptrs s rc of
             None \<Rightarrow> Inl NilDereference
           | Some (p, ty) \<Rightarrow> Inr (safecopy_CopyOut s p sl)))"
| "exec sb (DeclPtr rc) s =
     (case ptrs s rc of
        None \<Rightarrow> Inr (s\<lparr>uintptrs := (uintptrs s)(''ptr'' \<mapsto> 0)\<rparr>)
      | Some (p, ty) \<Rightarrow> Inr (s\<lparr>uintptrs := (uintptrs s)(''ptr'' \<mapsto> p)\<rparr>))"
| "exec sb DeclVal s =
     (case uintptrs s ''ptr'' of
        None \<Rightarrow> Inl DoesNotCompile
      | Some p \<Rightarrow> Inr (s\<lparr>uintptrs := (uintptrs s)(''val'' \<mapsto> p)\<rparr>))"
| "exec sb XorVal s =
     (case uintptrs s ''val'' of
        None \<Rightarrow> Inl DoesNotCompile
      | Some v \<Rightarrow> Inr (s\<lparr>uintptrs := (uintptrs s)(''val'' \<mapsto> v XOR 0)\<rparr>))"
| "exec sb VarBuf s =
     Inr (s\<lparr>slices := (slices s)(''buf'' \<mapsto> \<lparr>Data = 0, Len = 0, Cap = 0\<rparr>)\<rparr>)"
| "exec sb DeclHdr s =
     (case slices s ''buf'' of
        None \<Rightarrow> Inl DoesNotCompile
      | Some sl \<Rightarrow> Inr (s\<lparr>hdr := Some ''buf''\<rparr>))"
| "exec sb HdrData s =
     (case (hdr s, uintptrs s ''val'') of
        (Some b, Some v) \<Rightarrow>
          (case slices s b of
             None \<Rightarrow> Inl DoesNotCompile
           | Some sl \<Rightarrow> Inr (s\<lparr>slices := (slices s)(b \<mapsto> sl\<lparr>Data := v\<rparr>)\<rparr>))
      | _ \<Rightarrow> Inl DoesNotCompile)"
| "exec sb (HdrLen rc) s =
     (case (hdr s, sb rc) of
        (Some b, Some n) \<Rightarrow>
          (case slices s b of
             None \<Rightarrow> Inl DoesNotCompile
           | Some sl \<Rightarrow> Inr (s\<lparr>slices := (slices s)(b \<mapsto> sl\<lparr>Len := n\<rparr>)\<rparr>))
      | (Some b, None) \<Rightarrow> Inl GeneratedElsewhere
      | _ \<Rightarrow> Inl DoesNotCompile)"
| "exec sb (HdrCap rc) s =
     (case (hdr s, sb rc) of
        (Some b, Some n) \<Rightarrow>
          (case slices s b of
             None \<Rightarrow> Inl DoesNotCompile
           | Some sl \<Rightarrow> Inr (s\<lparr>slices := (slices s)(b \<mapsto> sl\<lparr>Cap := n\<rparr>)\<rparr>))
      | (Some b, None) \<Rightarrow> Inl GeneratedElsewhere
      | _ \<Rightarrow> Inl DoesNotCompile)"
| "exec sb CallCopyOutBytes s =
     (case slices s ''buf'' of
        None \<Rightarrow> Inl DoesNotCompile
      | Some sl \<Rightarrow>
          (let bs = load (mem s) (Data sl) (Len sl)
           in Inr (s\<lparr>len_err := Some (task_CopyOutBytes s (addr s) bs),
                     trace := trace s @ [CopyOutBytesCall (addr s) bs]\<rparr>)))"
| "exec sb CallCopyInBytes s =
     (case slices s ''buf'' of
        None \<Rightarrow> Inl DoesNotCompile
      | Some sl \<Rightarrow>
          (case task_CopyInBytes s (addr s) (Len sl) of
             (bs, n, e) \<Rightarrow>
               Inr (s\<lparr>mem := store (mem s) (Data sl) (take (Len sl) bs),
                      len_err := Some (n, e),
                      trace := trace s @ [CopyInBytesCall (addr s) (Len sl)]\<rparr>)))"
| "exec sb CallWrite s =
     (case slices s ''buf'' of
        None \<Rightarrow> Inl DoesNotCompile
      | Some sl \<Rightarrow>
          (let bs = load (mem s) (Data sl) (Len sl)
           in Inr (s\<lparr>len_err := Some (w_Write s bs), trace := trace s @ [WriteCall bs]\<rparr>)))"
| "exec sb (KeepAlive rc) s = Inr s"
| "exec sb ReturnLenErr s =
     (case len_err s of
        None \<Rightarrow> Inl DoesNotCompile
      | Some (n, e) \<Rightarrow> Inr (s\<lparr>ret := Some (RIntErr n e)\<rparr>))"
| "exec sb ReturnInt64LenErr s =
     (case len_err s of
        None \<Rightarrow> Inl DoesNotCompile
      | Some (n, e) \<Rightarrow> Inr (s\<lparr>ret := Some (RInt64Err n e)\<rparr>))"

text \<open>The lines of a body in order, up to the first panic or return.\<close>

fun exec_lines :: "(string \<Rightarrow> nat option) \<Rightarrow> goline list \<Rightarrow> gostate \<Rightarrow> gopanic + gostate" where
  "exec_lines sb [] s = Inr s"
| "exec_lines sb (l # ls) s =
     (case exec sb l s of
        Inl x \<Rightarrow> Inl x
      | Inr s' \<Rightarrow> if ret s' = None then exec_lines sb ls s' else Inr s')"

subsection \<open>Emitted methods\<close>

fun is_header :: "string \<Rightarrow> goline \<Rightarrow> bool" where
  "is_header name (FuncHeader rc tn n params res) = (n = name)"
| "is_header name l = False"

text \<open>The lines between the header of the method \<open>name\<close> and its closing brace.\<close>

definition method_body :: "string \<Rightarrow> (nat \<times> goline) list \<Rightarrow> goline list" where
  "method_body name prog =
     takeWhile (\<lambda>l. l \<noteq> FuncEnd) (tl (dropWhile (\<lambda>l. \<not> is_header name l) (map snd prog)))"

text \<open>
  \<open>rc.SizeBytes()\<close> on the receiver \<open>rc\<close> of the generated type runs the emitted
  \<open>SizeBytes\<close>; the size of anything else is generated elsewhere.
\<close>

definition call_SizeBytes :: "(nat \<times> goline) list \<Rightarrow> gostate \<Rightarrow> nat option" where
  "call_SizeBytes prog s =
     (case exec_lines (\<lambda>a. None) (method_body ''SizeBytes'' prog) (s\<lparr>ret := None\<rparr>) of
        Inr s' \<Rightarrow> (case ret s' of Some (RInt n) \<Rightarrow> Some n | _ \<Rightarrow> None)
      | Inl x \<Rightarrow> None)"

definition call_method ::
  "(nat \<times> goline) list \<Rightarrow> string \<Rightarrow> string \<Rightarrow> gostate \<Rightarrow> gopanic + gostate" where
  "call_method prog rc name s =
     exec_lines (\<lambda>a. if a = rc then call_SizeBytes prog s else None)
       (method_body name prog) (s\<lparr>ret := None\<rparr>)"

text \<open>What a call returns: the panic, or the returned values.\<close>

definition result_of :: "gopanic + gostate \<Rightarrow> gopanic + retval option" where
  "result_of x = (case x of Inl e \<Rightarrow> Inl e | Inr s \<Rightarrow> Inr (ret s))"

text \<open>The lines a generator function appends when it runs on \<open>g\<close>.\<close>

definition emitted ::
  "(interfaceGenerator \<Rightarrow> interfaceGenerator) \<Rightarrow> interfaceGenerator \<Rightarrow> goline list" where
  "emitted h g = map snd (drop (length (out g)) (out (h g)))"

text \<open>
  The lines a generator function emits on a generator that has emitted nothing, and the
  functions that emit the same lines after whatever was emitted before.
\<close>

definition lines_of :: "(interfaceGenerator \<Rightarrow> interfaceGenerator) \<Rightarrow> goline list" where
  "lines_of h =
     emitted h \<lparr>out = [], indent = 0, t = [], r = [], f = examplePositions,
                g_is = {}, g_ms = {}, g_as = {}\<rparr>"

definition appends :: "(interfaceGenerator \<Rightarrow> interfaceGenerator) \<Rightarrow> bool" where
  "appends h \<longleftrightarrow> (\<forall>g. map snd (out (h g)) = map snd (out g) @ lines_of h)"

text \<open>A line that neither opens nor closes a method.\<close>

definition plain :: "goline \<Rightarrow> bool" where
  "plain l \<longleftrightarrow> l \<noteq> FuncEnd \<and> (\<forall>n. \<not> is_header n l)"

subsection \<open>An example state\<close>

text \<open>
  A memory that holds the 32-bit value \<open>0x12345678\<close> in little-endian order at address
  100; a task whose address space takes two bytes and then faults; a writer that takes
  everything.
\<close>

definition exampleMemory :: memory where
  "exampleMemory i =
     (if i = 100 then 0x78 else if i = 101 then 0x56 else if i = 102 then 0x34
      else if i = 103 then 0x12 else 0)"

definition exampleCopyOutBytes :: "nat \<Rightarrow> 8 word list \<Rightarrow> int \<times> string option" where
  "exampleCopyOutBytes a bs =
     (if length bs \<le> 2 then (int (length bs), None) else (2, Some ''EFAULT''))"

definition exampleCopyInBytes :: "nat \<Rightarrow> nat \<Rightarrow> 8 word list \<times> int \<times> string option" where
  "exampleCopyInBytes a n =
     (if n \<le> 2 then (replicate n 0xAB, int n, None) else ([0xAB, 0xAB], 2, Some ''EFAULT''))"

definition exampleWrite :: "8 word list \<Rightarrow> int \<times> string option" where
  "exampleWrite bs = (int (length bs), None)"

definition exampleState :: gostate where
  "exampleState =
     \<lparr>mem = exampleMemory,
      slices = [''dst'' \<mapsto> \<lparr>Data = 200, Len = 4, Cap = 4\<rparr>],
      scalars = [''s.n'' \<mapsto> (100, Uint32), ''s.m'' \<mapsto> (300, Uint32)],
      ptrs = [''x'' \<mapsto> (100, Some Uint32)],
      named = [''T'' \<mapsto> Uint32],
      typeSizes = Map.empty,
      byteOrder = LittleEndian,
      hostOrder = LittleEndian,
      uintptrs = Map.empty,
      hdr = None,
      len_err = None,
      addr = 4096,
      task_CopyOutBytes = exampleCopyOutBytes,
      task_CopyInBytes = exampleCopyInBytes,
      w_Write = exampleWrite,
      trace = [],
      ret = None\<rparr>"

section \<open>Byte orders, memory and conversions\<close>

lemma length_le_bytes [simp]: "length (le_bytes n w) = n"
  by (simp add: le_bytes_def)

lemma nth_le_bytes: "i < n \<Longrightarrow> le_bytes n w ! i = ucast (drop_bit (8 * i) w)"
  by (simp add: le_bytes_def)

lemma bit_le_word:
  "bit (le_word bs :: 'a::len word) k \<longleftrightarrow>
     k < LENGTH('a) \<and> k div 8 < length bs \<and> bit (bs ! (k div 8)) (k mod 8)"
proof (induction bs arbitrary: k)
  case Nil
  show ?case by simp
next
  case (Cons b bs)
  show ?case
  proof (cases "k < 8")
    case True
    then show ?thesis
      by (auto simp add: bit_or_iff bit_ucast_iff bit_push_bit_iff dest: bit_imp_le_length)
  next
    case False
    then have k: "k = (k - 8) + 8" by simp
    have d: "k div 8 = Suc ((k - 8) div 8)" "k mod 8 = (k - 8) mod 8"
      using False by (simp_all add: le_div_geq le_mod_geq)
    show ?thesis
      using False
      by (auto simp add: bit_or_iff bit_ucast_iff bit_push_bit_iff Cons.IH d
          dest: bit_imp_le_length)
  qed
qed

lemma le_word_le_bytes:
  assumes "LENGTH('a) \<le> 8 * n"
  shows "le_word (le_bytes n w) = (w :: 'a::len word)"
proof (rule bit_word_eqI)
  fix k assume k: "k < LENGTH('a)"
  then have "k div 8 < n" using assms by (simp add: less_mult_imp_div_less mult.commute)
  then show "bit (le_word (le_bytes n w) :: 'a word) k = bit w k"
    using k by (simp add: bit_le_word nth_le_bytes bit_ucast_iff bit_drop_bit_eq)
qed

lemma le_bytes_le_word:
  assumes "8 * length bs \<le> LENGTH('a)"
  shows "le_bytes (length bs) (le_word bs :: 'a::len word) = bs"
proof (rule nth_equalityI)
  show "length (le_bytes (length bs) (le_word bs :: 'a word)) = length bs" by simp
next
  fix i assume "i < length (le_bytes (length bs) (le_word bs :: 'a word))"
  then have i: "i < length bs" by simp
  show "le_bytes (length bs) (le_word bs :: 'a word) ! i = bs ! i"
  proof (rule bit_word_eqI)
    fix j assume j: "j < LENGTH(8)"
    then have j8: "j < 8" by simp
    have "8 * i + j < 8 * length bs" using i j8 by simp
    then have lt: "8 * i + j < LENGTH('a)" using assms by simp
    have dm: "(8 * i + j) div 8 = i" "(8 * i + j) mod 8 = j" using j8 by simp_all
    show "bit (le_bytes (length bs) (le_word bs :: 'a word) ! i) j = bit (bs ! i) j"
      using i j8 lt by (simp add: nth_le_bytes bit_ucast_iff bit_drop_bit_eq bit_le_word dm)
  qed
qed

lemma length_PutUint [simp]: "length (PutUint bo n w) = n"
  by (cases bo) (simp_all add: PutUint_def)

lemma GetUint_PutUint:
  "LENGTH('a) \<le> 8 * n \<Longrightarrow> GetUint bo (PutUint bo n w) = (w :: 'a::len word)"
  by (cases bo) (simp_all add: GetUint_def PutUint_def le_word_le_bytes)

lemma PutUint_GetUint:
  "8 * length bs \<le> LENGTH('a) \<Longrightarrow> PutUint bo (length bs) (GetUint bo bs :: 'a::len word) = bs"
proof (cases bo)
  case LittleEndian
  assume "8 * length bs \<le> LENGTH('a)"
  then show ?thesis using LittleEndian by (simp add: GetUint_def PutUint_def le_bytes_le_word)
next
  case BigEndian
  assume a: "8 * length bs \<le> LENGTH('a)"
  have "le_bytes (length (rev bs)) (le_word (rev bs) :: 'a word) = rev bs"
    by (rule le_bytes_le_word) (simp add: a)
  then show ?thesis using BigEndian by (simp add: GetUint_def PutUint_def)
qed

lemma length_val_bytes [simp]: "length (val_bytes h v) = sizeof (type_of v)"
  by (cases v) simp_all

lemma type_of_bytes_val [simp]: "type_of (bytes_val h p bs) = p"
  by (cases p) simp_all

lemma bytes_val_val_bytes [simp]: "bytes_val h (type_of v) (val_bytes h v) = v"
  by (cases v) (simp_all add: GetUint_PutUint)

lemma PutUint_GetUint_len:
  "length bs = n \<Longrightarrow> 8 * n \<le> LENGTH('a) \<Longrightarrow> PutUint bo n (GetUint bo bs :: 'a::len word) = bs"
  using PutUint_GetUint [of bs, where 'a = 'a] by auto

lemma val_bytes_bytes_val:
  "length bs = sizeof p \<Longrightarrow> val_bytes h (bytes_val h p bs) = bs"
  by (cases p) (simp_all add: PutUint_GetUint_len)

lemma length_load [simp]: "length (load m a n) = n"
  by (simp add: load_def)

lemma nth_load: "i < n \<Longrightarrow> load m a n ! i = m (a + i)"
  by (simp add: load_def)

lemma load_store_same [simp]: "load (store m a bs) a (length bs) = bs"
  by (rule nth_equalityI) (simp_all add: nth_load store_def)

lemma load_store_prefix: "n \<le> length bs \<Longrightarrow> load (store m a bs) a n = take n bs"
  by (rule nth_equalityI) (simp_all add: nth_load store_def)

lemma take_load: "n \<le> k \<Longrightarrow> take n (load m a k) = load m a n"
  by (rule nth_equalityI) (simp_all add: nth_load)

lemma store_outside: "i < a \<or> a + length bs \<le> i \<Longrightarrow> store m a bs i = m i"
  by (auto simp add: store_def)

lemma store_load_same [simp]: "store m a (load m a n) = m"
  by (rule ext) (auto simp add: store_def nth_load)

lemma convert_same_width [simp]:
  "convert Uint8 (I8 a) = U8 a" "convert Uint8 (U8 a) = U8 a"
  "convert Int8 (U8 a) = I8 a" "convert Int8 (I8 a) = I8 a"
  "convert Uint16 (I16 b) = U16 b" "convert Uint16 (U16 b) = U16 b"
  "convert Int16 (U16 b) = I16 b" "convert Int16 (I16 b) = I16 b"
  "convert Uint32 (I32 c) = U32 c" "convert Uint32 (U32 c) = U32 c"
  "convert Int32 (U32 c) = I32 c" "convert Int32 (I32 c) = I32 c"
  "convert Uint64 (I64 d) = U64 d" "convert Uint64 (U64 d) = U64 d"
  "convert Int64 (U64 d) = I64 d" "convert Int64 (I64 d) = I64 d"
  by (simp_all add: convert_def)

lemma convert_type_of [simp]: "convert (type_of v) v = v"
  by (cases v) simp_all

lemma load_one: "load m a 1 = [m a]"
  by (simp add: load_def)

lemma PutUint_1: "PutUint bo (Suc 0) (w :: 8 word) = [w]"
  by (cases bo) (simp_all add: PutUint_def le_bytes_def)

lemma GetUint_1: "GetUint bo [b] = (b :: 8 word)"
  by (cases bo) (simp_all add: GetUint_def)

section \<open>Bookkeeping of the generator\<close>

lemma emit_fields [simp]:
  "g_as (emit l g) = g_as g" "g_is (emit l g) = g_is g" "g_ms (emit l g) = g_ms g"
  "r (emit l g) = r g" "t (emit l g) = t g" "indent (emit l g) = indent g"
  by (simp_all add: emit_def)

lemma recordUsedImport_fields [simp]:
  "g_as (recordUsedImport i g) = g_as g" "out (recordUsedImport i g) = out g"
  "r (recordUsedImport i g) = r g" "t (recordUsedImport i g) = t g"
  "indent (recordUsedImport i g) = indent g"
  by (simp_all add: recordUsedImport_def)

lemma shift_as [simp]:
  "g_as (shift b n g) = g_as g" "g_as (shiftDynamic b a g) = g_as g"
  by (simp_all add: shift_def shiftDynamic_def)

lemma inIndent_as [simp]: "g_as (inIndent h g) = g_as (h (g\<lparr>indent := indent g + 1\<rparr>))"
  by (simp add: inIndent_def Let_def)

lemma marshalScalar_as: "g_as (marshalScalar a typ b g) = g_as g"
  by (simp add: marshalScalar_def seq_def)

lemma unmarshalScalar_as:
  "g_as (unmarshalScalar a typ b g) = (if is_primitive typ then g_as g else insert a (g_as g))"
  by (simp add: unmarshalScalar_def seq_def is_primitive_def
        recordPotentiallyNonPackedField_def)

lemma marshalPrimitiveScalar_as: "g_as (marshalPrimitiveScalar a typ b g) = g_as g"
  by (simp add: marshalPrimitiveScalar_def seq_def)

lemma unmarshalPrimitiveScalar_as: "g_as (unmarshalPrimitiveScalar a typ b c g) = g_as g"
  by (simp add: unmarshalPrimitiveScalar_def seq_def)

lemma emitMarshallableForPrimitiveNewtype_as:
  "g_as (emitMarshallableForPrimitiveNewtype nt g) = g_as g"
  by (simp add: emitMarshallableForPrimitiveNewtype_def seq_def emitBypassEscapeAnalysis_def
        emitSliceOverReceiver_def marshalPrimitiveScalar_as unmarshalPrimitiveScalar_as
        split: prod.split)

lemma newInterfaceGenerator_as: "g_as (newInterfaceGenerator tn rc fset) = {}"
  by (simp add: newInterfaceGenerator_def recordUsedMarshallable_def)

text \<open>
  C10, as amended.  \<open>recordPotentiallyNonPackedField\<close> adds its argument to the set \<open>as\<close>
  whoever calls it.  Of the functions of the two files, \<open>unmarshalScalar\<close> is the only one
  that changes \<open>as\<close>: it adds the accessor exactly when the type is outside the nine
  fixed-width primitives.  \<open>marshalScalar\<close> leaves the set as it is, whatever the type of
  the field, and so do \<open>shift\<close>, \<open>shiftDynamic\<close>, \<open>recordUsedImport\<close>,
  \<open>recordUsedMarshallable\<close> and the functions for newtypes on primitives; a new generator
  starts with the empty set.
\<close>

theorem as_changed_by_unmarshalScalar_only:
  "g_as (recordPotentiallyNonPackedField a g) = insert a (g_as g)
   \<and> g_as (unmarshalScalar a ty b g) =
       (if is_primitive ty then g_as g else insert a (g_as g))
   \<and> g_as (marshalScalar a ty b g) = g_as g
   \<and> g_as (marshalPrimitiveScalar a ty b g) = g_as g
   \<and> g_as (unmarshalPrimitiveScalar a ty b c g) = g_as g
   \<and> g_as (emitMarshallableForPrimitiveNewtype nt g) = g_as g
   \<and> g_as (shift b n g) = g_as g
   \<and> g_as (shiftDynamic b a g) = g_as g
   \<and> g_as (recordUsedImport i g) = g_as g
   \<and> g_as (recordUsedMarshallable m g) = g_as g
   \<and> g_as (newInterfaceGenerator tn rc fset) = {}"
  by (simp add: unmarshalScalar_as marshalScalar_as marshalPrimitiveScalar_as
      unmarshalPrimitiveScalar_as emitMarshallableForPrimitiveNewtype_as
      newInterfaceGenerator_as recordPotentiallyNonPackedField_def recordUsedMarshallable_def)

theorem as_changed_by_unmarshalScalar_only_witness:
  "g_as (unmarshalScalar ''s.inner'' ''Inner'' ''src''
           (newInterfaceGenerator ''S'' ''s'' examplePositions)) = {''s.inner''}
   \<and> g_as (unmarshalScalar ''s.n'' ''uint32'' ''src''
           (newInterfaceGenerator ''S'' ''s'' examplePositions)) = {}
   \<and> g_as (marshalScalar ''s.inner'' ''Inner'' ''dst''
           (newInterfaceGenerator ''S'' ''s'' examplePositions)) = {}"
  using as_changed_by_unmarshalScalar_only
          [where a = "''s.inner''" and ty = "''Inner''" and b = "''src''"
             and g = "newInterfaceGenerator ''S'' ''s'' examplePositions"]
        as_changed_by_unmarshalScalar_only
          [where a = "''s.n''" and ty = "''uint32''" and b = "''src''"
             and g = "newInterfaceGenerator ''S'' ''s'' examplePositions"]
        as_changed_by_unmarshalScalar_only
          [where a = "''s.inner''" and ty = "''Inner''" and b = "''dst''"
             and g = "newInterfaceGenerator ''S'' ''s'' examplePositions"]
  by (simp add: is_primitive_def newInterfaceGenerator_as)

text \<open>
  The set is not populated by \<open>unmarshalScalar\<close> alone: a direct call of the generator's
  method \<open>recordPotentiallyNonPackedField\<close> adds an accessor with no decode of any field.
\<close>

theorem as_populated_without_unmarshalScalar:
  "''s.pad'' \<in> g_as (recordPotentiallyNonPackedField ''s.pad''
       (newInterfaceGenerator ''S'' ''s'' examplePositions))
   \<and> ''s.pad'' \<notin> g_as (newInterfaceGenerator ''S'' ''s'' examplePositions)"
  by (simp add: recordPotentiallyNonPackedField_def newInterfaceGenerator_as)

section \<open>Validation of the type under a newtype\<close>

text \<open>
  C6.  \<open>validatePrimitiveNewtype\<close> aborts exactly for \<open>int\<close>, \<open>uint\<close> and \<open>string\<close>, and
  the abort carries the position of the offending identifier.  Each of the nine
  fixed-width scalars passes without a message, and any other name passes with one debug
  message, at the position of the identifier, that dispatch through
  \<open>marshal.Marshallable\<close> will be attempted.
\<close>

theorem validatePrimitiveNewtype_aborts_iff:
  "(isl (validatePrimitiveNewtype g tp) \<longleftrightarrow> Name tp \<in> {''int'', ''uint'', ''string''})
   \<and> (isl (validatePrimitiveNewtype g tp) \<longrightarrow>
        fst (projl (validatePrimitiveNewtype g tp)) = f g (NamePos tp))
   \<and> (is_primitive (Name tp) \<longrightarrow> validatePrimitiveNewtype g tp = Inr [])
   \<and> (\<not> is_primitive (Name tp) \<and> Name tp \<notin> {''int'', ''uint'', ''string''} \<longrightarrow>
        (\<exists>msg. validatePrimitiveNewtype g tp = Inr [(f g (NamePos tp), msg)]))"
  by (simp add: validatePrimitiveNewtype_def is_primitive_def)

theorem validatePrimitiveNewtype_aborts_iff_witness:
  "isl (validatePrimitiveNewtype (newInterfaceGenerator ''T'' ''x'' examplePositions)
          \<lparr>Name = ''string'', NamePos = 42\<rparr>)
   \<and> fst (projl (validatePrimitiveNewtype (newInterfaceGenerator ''T'' ''x'' examplePositions)
          \<lparr>Name = ''string'', NamePos = 42\<rparr>)) = (''s.go'', 42, 0)
   \<and> validatePrimitiveNewtype (newInterfaceGenerator ''T'' ''x'' examplePositions)
          \<lparr>Name = ''uint32'', NamePos = 42\<rparr> = Inr []
   \<and> \<not> isl (validatePrimitiveNewtype (newInterfaceGenerator ''T'' ''x'' examplePositions)
          \<lparr>Name = ''Inner'', NamePos = 42\<rparr>)"
  using validatePrimitiveNewtype_aborts_iff
          [of "newInterfaceGenerator ''T'' ''x'' examplePositions"
              "\<lparr>Name = ''string'', NamePos = 42\<rparr>"]
        validatePrimitiveNewtype_aborts_iff
          [of "newInterfaceGenerator ''T'' ''x'' examplePositions"
              "\<lparr>Name = ''uint32'', NamePos = 42\<rparr>"]
        validatePrimitiveNewtype_aborts_iff
          [of "newInterfaceGenerator ''T'' ''x'' examplePositions"
              "\<lparr>Name = ''Inner'', NamePos = 42\<rparr>"]
  by (simp add: is_primitive_def newInterfaceGenerator_def recordUsedMarshallable_def
      examplePositions_def)

section \<open>The emitted program\<close>

lemma seq_Nil [simp]: "seq [] g = g"
  by (simp add: seq_def)

lemma seq_Cons [simp]: "seq (h # hs) g = seq hs (h g)"
  by (simp add: seq_def)

lemma appendsI:
  assumes "\<And>g. \<exists>ls. map snd (out (h g)) = map snd (out g) @ ls"
    and "\<And>g g'. emitted h g = emitted h g'"
  shows "appends h"
  unfolding appends_def
proof
  fix g
  obtain ls where ls: "map snd (out (h g)) = map snd (out g) @ ls"
    using assms(1) by blast
  have "emitted h g = ls"
    using ls by (simp add: emitted_def drop_map [symmetric])
  moreover have "emitted h g = lines_of h"
    unfolding lines_of_def by (rule assms(2))
  ultimately show "map snd (out (h g)) = map snd (out g) @ lines_of h"
    using ls by simp
qed

lemma appends_emit [simp]: "appends (emit l)"
  by (rule appendsI) (simp_all add: emit_def emitted_def)

lemma lines_of_emit [simp]: "lines_of (emit l) = [l]"
  by (simp add: lines_of_def emitted_def emit_def)

lemma appends_recordUsedImport [simp]: "appends (recordUsedImport i)"
  by (rule appendsI) (simp_all add: recordUsedImport_def emitted_def)

lemma lines_of_recordUsedImport [simp]: "lines_of (recordUsedImport i) = []"
  by (simp add: lines_of_def emitted_def recordUsedImport_def)

lemma appendsD: "appends h \<Longrightarrow> map snd (out (h g)) = map snd (out g) @ lines_of h"
  by (simp add: appends_def)

lemma lines_of_eq:
  "(\<And>g. map snd (out (h g)) = map snd (out g) @ ls) \<Longrightarrow> lines_of h = ls"
  by (simp add: lines_of_def emitted_def drop_map [symmetric])

lemma appends_eq:
  "(\<And>g. map snd (out (h g)) = map snd (out g) @ ls) \<Longrightarrow> appends h"
  using lines_of_eq [of h ls] by (simp add: appends_def)

lemma appends_seq_Nil [simp]: "appends (seq [])"
  by (rule appends_eq [of _ "[]"]) simp

lemma lines_of_seq_Nil [simp]: "lines_of (seq []) = []"
  by (rule lines_of_eq) simp

lemma seq_Cons_lines:
  assumes "appends h" "appends (seq hs)"
  shows "map snd (out (seq (h # hs) g)) = map snd (out g) @ (lines_of h @ lines_of (seq hs))"
  using appendsD [OF assms(2), of "h g"] appendsD [OF assms(1), of g] by simp

lemma appends_seq_Cons [simp]: "appends h \<Longrightarrow> appends (seq hs) \<Longrightarrow> appends (seq (h # hs))"
  by (rule appends_eq [of _ "lines_of h @ lines_of (seq hs)"]) (rule seq_Cons_lines)

lemma lines_of_seq_Cons [simp]:
  "appends h \<Longrightarrow> appends (seq hs) \<Longrightarrow> lines_of (seq (h # hs)) = lines_of h @ lines_of (seq hs)"
  by (rule lines_of_eq) (rule seq_Cons_lines)

lemma inIndent_lines:
  assumes "appends h"
  shows "map snd (out (inIndent h g)) = map snd (out g) @ lines_of h"
  using appendsD [OF assms, of "g\<lparr>indent := indent g + 1\<rparr>"]
  by (simp add: inIndent_def Let_def)

lemma appends_inIndent [simp]: "appends h \<Longrightarrow> appends (inIndent h)"
  by (rule appends_eq [of _ "lines_of h"]) (rule inIndent_lines)

lemma lines_of_inIndent [simp]: "appends h \<Longrightarrow> lines_of (inIndent h) = lines_of h"
  by (rule lines_of_eq) (rule inIndent_lines)

lemma appends_shift [simp]: "appends (shift b n)" "appends (shiftDynamic b a)"
  by (simp_all add: shift_def shiftDynamic_def)

lemma lines_of_shift [simp]:
  "lines_of (shift b n) = [Reslice b (Lit n)]"
  "lines_of (shiftDynamic b a) = [Reslice b (SizeOf a)]"
  by (simp_all add: shift_def shiftDynamic_def)

lemma appends_recordPotentiallyNonPackedField [simp]:
  "appends (recordPotentiallyNonPackedField a)"
  by (rule appends_eq [of _ "[]"]) (simp add: recordPotentiallyNonPackedField_def)

lemma lines_of_recordPotentiallyNonPackedField [simp]:
  "lines_of (recordPotentiallyNonPackedField a) = []"
  by (rule lines_of_eq) (simp add: recordPotentiallyNonPackedField_def)

lemma appends_scalars [simp]:
  "appends (marshalScalar a typ b)" "appends (unmarshalScalar a typ b)"
  "appends (marshalPrimitiveScalar a typ b)" "appends (unmarshalPrimitiveScalar a typ b c)"
  by (simp_all add: marshalScalar_def unmarshalScalar_def marshalPrimitiveScalar_def
      unmarshalPrimitiveScalar_def)

lemma emitted_lines_of: "appends h \<Longrightarrow> emitted h g = lines_of h"
  by (simp add: emitted_def appends_def drop_map [symmetric])

lemma plain_marshalPrimitiveScalar:
  "\<forall>l \<in> set (lines_of (marshalPrimitiveScalar a typ b)). plain l"
  by (simp add: marshalPrimitiveScalar_def plain_def)

lemma plain_unmarshalPrimitiveScalar:
  "\<forall>l \<in> set (lines_of (unmarshalPrimitiveScalar a typ b c)). plain l"
  by (simp add: unmarshalPrimitiveScalar_def plain_def)

lemma dropWhile_plain:
  "\<forall>l \<in> set xs. plain l \<Longrightarrow>
   dropWhile (\<lambda>l. \<not> is_header n l) (xs @ ys) = dropWhile (\<lambda>l. \<not> is_header n l) ys"
  by (induction xs) (simp_all add: plain_def)

lemma takeWhile_plain:
  "\<forall>l \<in> set xs. plain l \<Longrightarrow>
   takeWhile (\<lambda>l. l \<noteq> FuncEnd) (xs @ ys) = xs @ takeWhile (\<lambda>l. l \<noteq> FuncEnd) ys"
  by (induction xs) (simp_all add: plain_def)

lemmas segment_simps =
  dropWhile_plain [OF plain_marshalPrimitiveScalar]
  dropWhile_plain [OF plain_unmarshalPrimitiveScalar]
  takeWhile_plain [OF plain_marshalPrimitiveScalar]
  takeWhile_plain [OF plain_unmarshalPrimitiveScalar]

lemma appends_size_line [simp]:
  "appends (case sd of (sz, dynamic) \<Rightarrow>
      if \<not> dynamic then emit (ReturnInt sz) else emit (ReturnNilSize n))"
  by (cases sd) simp

lemma lines_of_size_line [simp]:
  "lines_of (case sd of (sz, dynamic) \<Rightarrow>
      if \<not> dynamic then emit (ReturnInt sz) else emit (ReturnNilSize n)) =
   [if snd sd then ReturnNilSize n else ReturnInt (fst sd)]"
  by (cases sd) simp

lemma appends_helpers [simp]:
  "appends (emitBypassEscapeAnalysis rc)" "appends (emitSliceOverReceiver rc)"
  by (simp_all add: emitBypassEscapeAnalysis_def emitSliceOverReceiver_def)

lemmas program_simps = method_body_def emitMarshallableForPrimitiveNewtype_def typeName_def
  appendsD segment_simps

lemma body_SizeBytes:
  assumes "out g = []"
  shows "method_body ''SizeBytes'' (out (emitMarshallableForPrimitiveNewtype nt g)) =
     [if snd (scalarSize nt) then ReturnNilSize (Name nt) else ReturnInt (fst (scalarSize nt))]"
  using assms by (simp add: program_simps)

lemma body_MarshalBytes:
  assumes "out g = []"
  shows "method_body ''MarshalBytes'' (out (emitMarshallableForPrimitiveNewtype nt g)) =
     lines_of (marshalPrimitiveScalar (r g) (Name nt) ''dst'')"
  using assms by (simp add: program_simps)

lemma body_UnmarshalBytes:
  assumes "out g = []"
  shows "method_body ''UnmarshalBytes'' (out (emitMarshallableForPrimitiveNewtype nt g)) =
     lines_of (unmarshalPrimitiveScalar (r g) (Name nt) ''src'' (t g))"
  using assms by (simp add: program_simps)

lemma body_Packed:
  assumes "out g = []"
  shows "method_body ''Packed'' (out (emitMarshallableForPrimitiveNewtype nt g)) =
     [Comment ''Scalar newtypes are always packed.'', ReturnBool True]"
  using assms by (simp add: program_simps)

lemma body_MarshalUnsafe:
  assumes "out g = []"
  shows "method_body ''MarshalUnsafe'' (out (emitMarshallableForPrimitiveNewtype nt g)) =
     [SafecopyCopyIn ''dst'' (r g)]"
  using assms by (simp add: program_simps)

lemma body_UnmarshalUnsafe:
  assumes "out g = []"
  shows "method_body ''UnmarshalUnsafe'' (out (emitMarshallableForPrimitiveNewtype nt g)) =
     [SafecopyCopyOut (r g) ''src'']"
  using assms by (simp add: program_simps)

lemma body_CopyOut:
  assumes "out g = []"
  shows "method_body ''CopyOut'' (out (emitMarshallableForPrimitiveNewtype nt g)) =
     lines_of (emitBypassEscapeAnalysis (r g)) @ lines_of (emitSliceOverReceiver (r g))
     @ [CallCopyOutBytes,
        Comment (''Since we bypassed the compiler's escape analysis, indicate that '' @ r g),
        Comment ''must live until after the CopyOutBytes.'',
        KeepAlive (r g), ReturnLenErr]"
  using assms by (simp add: program_simps emitBypassEscapeAnalysis_def emitSliceOverReceiver_def)

lemma body_CopyIn:
  assumes "out g = []"
  shows "method_body ''CopyIn'' (out (emitMarshallableForPrimitiveNewtype nt g)) =
     lines_of (emitBypassEscapeAnalysis (r g)) @ lines_of (emitSliceOverReceiver (r g))
     @ [CallCopyInBytes,
        Comment (''Since we bypassed the compiler's escape analysis, indicate that '' @ r g),
        Comment ''must live until after the CopyInBytes.'',
        KeepAlive (r g), ReturnLenErr]"
  using assms by (simp add: program_simps emitBypassEscapeAnalysis_def emitSliceOverReceiver_def)

lemma body_WriteTo:
  assumes "out g = []"
  shows "method_body ''WriteTo'' (out (emitMarshallableForPrimitiveNewtype nt g)) =
     lines_of (emitBypassEscapeAnalysis (r g)) @ lines_of (emitSliceOverReceiver (r g))
     @ [CallWrite,
        Comment (''Since we bypassed the compiler's escape analysis, indicate that '' @ r g),
        Comment ''must live until after the Write.'',
        KeepAlive (r g), ReturnInt64LenErr]"
  using assms by (simp add: program_simps emitBypassEscapeAnalysis_def emitSliceOverReceiver_def)

section \<open>Running the emitted lines\<close>

lemma prim_of_name_cases:
  assumes "prim_of_name typ = Some p"
  obtains "typ = ''int8''" "p = Int8" | "typ = ''uint8''" "p = Uint8"
    | "typ = ''byte''" "p = Uint8" | "typ = ''int16''" "p = Int16"
    | "typ = ''uint16''" "p = Uint16" | "typ = ''int32''" "p = Int32"
    | "typ = ''uint32''" "p = Uint32" | "typ = ''int64''" "p = Int64"
    | "typ = ''uint64''" "p = Uint64"
  using assms by (auto simp add: prim_of_name_def split: if_splits)

lemma is_primitive_iff: "is_primitive typ \<longleftrightarrow> (\<exists>p. prim_of_name typ = Some p)"
  by (auto simp add: is_primitive_def prim_of_name_def)

lemma prim_of_name_simps [simp]:
  "prim_of_name ''int8'' = Some Int8" "prim_of_name ''uint8'' = Some Uint8"
  "prim_of_name ''byte'' = Some Uint8" "prim_of_name ''int16'' = Some Int16"
  "prim_of_name ''uint16'' = Some Uint16" "prim_of_name ''int32'' = Some Int32"
  "prim_of_name ''uint32'' = Some Uint32" "prim_of_name ''int64'' = Some Int64"
  "prim_of_name ''uint64'' = Some Uint64"
  by (simp_all add: prim_of_name_def)

lemma scalarSize_prim:
  "prim_of_name (Name nt) = Some p \<Longrightarrow> scalarSize nt = (sizeof p, False)"
  by (erule prim_of_name_cases) (simp_all add: scalarSize_def)

lemma scalarSize_other:
  "\<not> is_primitive (Name nt) \<Longrightarrow> scalarSize nt = (0, True)"
  by (simp add: scalarSize_def is_primitive_def)

lemma load_Suc_0: "load m a (Suc 0) = [m a]"
  by (simp add: load_def)

lemma store_single: "store m a [w] = m(a := w)"
  by (rule ext) (auto simp add: store_def)

lemma type_of_read_scalar [simp]: "type_of (read_scalar s a p) = p"
  by (simp add: read_scalar_def)

lemma read_write_scalar:
  "type_of v = p \<Longrightarrow> read_scalar (write_scalar s a v) a p = v"
  using load_store_same [of "mem s" a "val_bytes (hostOrder s) v"]
  by (auto simp add: read_scalar_def write_scalar_def)

lemmas scalar_defs = marshalScalar_def unmarshalScalar_def
  marshalPrimitiveScalar_def unmarshalPrimitiveScalar_def

lemmas one_byte = read_scalar_def write_scalar_def assign_at_def store_single PutUint_1
  load_Suc_0 GetUint_1

lemmas more_bytes = read_scalar_def write_scalar_def assign_at_def slice_to_def

lemma exec_marshalScalar:
  assumes "prim_of_name typ = Some p" "scalars s x = Some (a, p)" "slices s b = Some sl"
    "sizeof p \<le> Len sl" "Len sl \<le> Cap sl" "ret s = None"
  shows "exec_lines sb (lines_of (marshalScalar x typ b)) s =
    Inr (s\<lparr>mem := store (mem s) (Data sl) (val_bytes (byteOrder s) (read_scalar s a p)),
           slices := (slices s)(b \<mapsto>
             \<lparr>Data = Data sl + sizeof p, Len = Len sl - sizeof p, Cap = Cap sl - sizeof p\<rparr>)\<rparr>)"
  using assms(1)
proof (cases rule: prim_of_name_cases)
  case 1 then show ?thesis using assms by (simp add: scalar_defs one_byte)
next
  case 2 then show ?thesis using assms by (simp add: scalar_defs one_byte)
next
  case 3 then show ?thesis using assms by (simp add: scalar_defs one_byte)
next
  case 4 then show ?thesis using assms by (simp add: scalar_defs more_bytes)
next
  case 5 then show ?thesis using assms by (simp add: scalar_defs more_bytes)
next
  case 6 then show ?thesis using assms by (simp add: scalar_defs more_bytes)
next
  case 7 then show ?thesis using assms by (simp add: scalar_defs more_bytes)
next
  case 8 then show ?thesis using assms by (simp add: scalar_defs more_bytes)
next
  case 9 then show ?thesis using assms by (simp add: scalar_defs more_bytes)
qed

lemma exec_unmarshalScalar:
  assumes "prim_of_name typ = Some p" "scalars s y = Some (a, p)" "slices s b = Some sl"
    "sizeof p \<le> Len sl" "Len sl \<le> Cap sl" "ret s = None"
  shows "exec_lines sb (lines_of (unmarshalScalar y typ b)) s =
    Inr (s\<lparr>mem := store (mem s) a
             (val_bytes (hostOrder s)
                (bytes_val (byteOrder s) p (load (mem s) (Data sl) (sizeof p)))),
           slices := (slices s)(b \<mapsto>
             \<lparr>Data = Data sl + sizeof p, Len = Len sl - sizeof p, Cap = Cap sl - sizeof p\<rparr>)\<rparr>)"
  using assms(1)
proof (cases rule: prim_of_name_cases)
  case 1 then show ?thesis using assms by (simp add: scalar_defs one_byte)
next
  case 2 then show ?thesis using assms by (simp add: scalar_defs one_byte)
next
  case 3 then show ?thesis using assms by (simp add: scalar_defs one_byte)
next
  case 4 then show ?thesis using assms by (simp add: scalar_defs more_bytes)
next
  case 5 then show ?thesis using assms by (simp add: scalar_defs more_bytes)
next
  case 6 then show ?thesis using assms by (simp add: scalar_defs more_bytes)
next
  case 7 then show ?thesis using assms by (simp add: scalar_defs more_bytes)
next
  case 8 then show ?thesis using assms by (simp add: scalar_defs more_bytes)
next
  case 9 then show ?thesis using assms by (simp add: scalar_defs more_bytes)
qed

lemma exec_marshalPrimitiveScalar:
  assumes "prim_of_name typ = Some p" "ptrs s x = Some (a, Some p)" "slices s b = Some sl"
    "sizeof p \<le> Len sl" "Len sl \<le> Cap sl" "ret s = None"
  shows "exec_lines sb (lines_of (marshalPrimitiveScalar x typ b)) s =
    Inr (s\<lparr>mem := store (mem s) (Data sl) (val_bytes (byteOrder s) (read_scalar s a p))\<rparr>)"
  using assms(1)
proof (cases rule: prim_of_name_cases)
  case 1 then show ?thesis using assms by (simp add: scalar_defs one_byte)
next
  case 2 then show ?thesis using assms by (simp add: scalar_defs one_byte)
next
  case 3 then show ?thesis using assms by (simp add: scalar_defs one_byte)
next
  case 4 then show ?thesis using assms by (simp add: scalar_defs more_bytes)
next
  case 5 then show ?thesis using assms by (simp add: scalar_defs more_bytes)
next
  case 6 then show ?thesis using assms by (simp add: scalar_defs more_bytes)
next
  case 7 then show ?thesis using assms by (simp add: scalar_defs more_bytes)
next
  case 8 then show ?thesis using assms by (simp add: scalar_defs more_bytes)
next
  case 9 then show ?thesis using assms by (simp add: scalar_defs more_bytes)
qed

lemma exec_unmarshalPrimitiveScalar:
  assumes "prim_of_name typ = Some p" "ptrs s y = Some (a, Some p)" "slices s b = Some sl"
    "sizeof p \<le> Len sl" "Len sl \<le> Cap sl" "ret s = None"
    "prim_of_name tc = None" "named s tc = Some p"
  shows "exec_lines sb (lines_of (unmarshalPrimitiveScalar y typ b tc)) s =
    Inr (s\<lparr>mem := store (mem s) a
             (val_bytes (hostOrder s)
                (bytes_val (byteOrder s) p (load (mem s) (Data sl) (sizeof p))))\<rparr>)"
  using assms(1)
proof (cases rule: prim_of_name_cases)
  case 1 then show ?thesis using assms by (simp add: scalar_defs one_byte)
next
  case 2 then show ?thesis using assms by (simp add: scalar_defs one_byte)
next
  case 3 then show ?thesis using assms by (simp add: scalar_defs one_byte)
next
  case 4 then show ?thesis using assms by (simp add: scalar_defs more_bytes)
next
  case 5 then show ?thesis using assms by (simp add: scalar_defs more_bytes)
next
  case 6 then show ?thesis using assms by (simp add: scalar_defs more_bytes)
next
  case 7 then show ?thesis using assms by (simp add: scalar_defs more_bytes)
next
  case 8 then show ?thesis using assms by (simp add: scalar_defs more_bytes)
next
  case 9 then show ?thesis using assms by (simp add: scalar_defs more_bytes)
qed

section \<open>The example state\<close>

lemma example_facts:
  "prim_of_name ''uint32'' = Some Uint32"
  "scalars exampleState ''s.n'' = Some (100, Uint32)"
  "scalars exampleState ''s.m'' = Some (300, Uint32)"
  "ptrs exampleState ''x'' = Some (100, Some Uint32)"
  "slices exampleState ''dst'' = Some \<lparr>Data = 200, Len = 4, Cap = 4\<rparr>"
  "ret exampleState = None"
  "prim_of_name ''T'' = None"
  "named exampleState ''T'' = Some Uint32"
  "byteOrder exampleState = LittleEndian"
  "hostOrder exampleState = LittleEndian"
  by (simp_all add: exampleState_def prim_of_name_def)

lemma example_value: "read_scalar exampleState 100 Uint32 = U32 0x12345678"
  by (simp add: read_scalar_def exampleState_def load_def exampleMemory_def GetUint_def
      upt_rec [of 100] upt_rec [of 101] upt_rec [of 102] upt_rec [of 103])

lemma le_bytes_4:
  "le_bytes 4 w = [ucast w, ucast (drop_bit 8 w), ucast (drop_bit 16 w), ucast (drop_bit 24 w)]"
  by (simp add: le_bytes_def eval_nat_numeral)

lemma example_bytes:
  "PutUint LittleEndian 4 (0x12345678 :: 32 word) = [0x78, 0x56, 0x34, 0x12]"
  by (simp add: PutUint_def le_bytes_4 drop_bit_eq_div)

lemma example_generator:
  "out (newInterfaceGenerator ''T'' ''x'' examplePositions) = []"
  "r (newInterfaceGenerator ''T'' ''x'' examplePositions) = ''x''"
  "t (newInterfaceGenerator ''T'' ''x'' examplePositions) = ''T''"
  by (simp_all add: newInterfaceGenerator_def recordUsedMarshallable_def)

section \<open>The size of a newtype\<close>

lemma call_SizeBytes_eq:
  assumes "out g = []"
  shows "call_SizeBytes (out (emitMarshallableForPrimitiveNewtype nt g)) s =
     (if snd (scalarSize nt) then typeSizes s (Name nt) else Some (fst (scalarSize nt)))"
  using assms by (simp add: call_SizeBytes_def body_SizeBytes split: option.split)

lemma call_method_SizeBytes:
  assumes "out g = []"
  shows "result_of (call_method (out (emitMarshallableForPrimitiveNewtype nt g)) rc ''SizeBytes'' s) =
     (if snd (scalarSize nt) then
        (case typeSizes s (Name nt) of None \<Rightarrow> Inl GeneratedElsewhere
         | Some n \<Rightarrow> Inr (Some (RInt n)))
      else Inr (Some (RInt (fst (scalarSize nt)))))"
  using assms by (simp add: call_method_def body_SizeBytes result_of_def split: option.split)

lemma exec_typeSizes: "exec sb l s = Inr s' \<Longrightarrow> typeSizes s' = typeSizes s"
  by (cases l)
     (auto simp add: assign_at_def write_scalar_def safecopy_CopyIn_def safecopy_CopyOut_def
        Let_def
        split: sum.splits option.splits goval.splits goexpr.splits if_splits prod.splits)

lemma exec_lines_typeSizes: "exec_lines sb ls s = Inr s' \<Longrightarrow> typeSizes s' = typeSizes s"
proof (induction ls arbitrary: s)
  case Nil
  then show ?case by simp
next
  case (Cons l ls)
  then show ?case
    by (auto split: sum.splits if_splits dest: exec_typeSizes)
qed

lemma sizeof_cases: "sizeof p \<in> {1, 2, 4, 8}"
  by (cases p) simp_all

text \<open>
  C7.  The \<open>SizeBytes\<close> emitted for a newtype returns a value that does not depend on the
  state it is called in (the memory of the instance, the receiver), but only on the type:
  two calls in any two states return the same, and so does a second call after a first, in
  the state the first one left.  For a newtype on a fixed-width scalar the value is the
  width of the scalar, one of 1, 2, 4 and 8, as \<open>scalarSize\<close> has it; for a newtype on a
  type \<open>T\<close> generated elsewhere it is what \<open>(*T)(nil).SizeBytes()\<close> returns.
\<close>

theorem SizeBytes_constant:
  assumes "out g = []"
  shows "(typeSizes s' = typeSizes s \<longrightarrow>
            result_of (call_method (out (emitMarshallableForPrimitiveNewtype nt g)) (r g)
                ''SizeBytes'' s') =
            result_of (call_method (out (emitMarshallableForPrimitiveNewtype nt g)) (r g)
                ''SizeBytes'' s))
       \<and> (\<forall>s1. call_method (out (emitMarshallableForPrimitiveNewtype nt g)) (r g)
                ''SizeBytes'' s = Inr s1 \<longrightarrow>
            result_of (call_method (out (emitMarshallableForPrimitiveNewtype nt g)) (r g)
                ''SizeBytes'' s1) = Inr (ret s1))
       \<and> (\<forall>p. prim_of_name (Name nt) = Some p \<longrightarrow>
            result_of (call_method (out (emitMarshallableForPrimitiveNewtype nt g)) (r g)
                ''SizeBytes'' s) = Inr (Some (RInt (sizeof p)))
            \<and> scalarSize nt = (sizeof p, False) \<and> sizeof p \<in> {1, 2, 4, 8})
       \<and> (\<not> is_primitive (Name nt) \<longrightarrow>
            result_of (call_method (out (emitMarshallableForPrimitiveNewtype nt g)) (r g)
                ''SizeBytes'' s) =
              (case typeSizes s (Name nt) of None \<Rightarrow> Inl GeneratedElsewhere
               | Some n \<Rightarrow> Inr (Some (RInt n))))"
proof (intro conjI allI impI)
  assume "typeSizes s' = typeSizes s"
  then show "result_of (call_method (out (emitMarshallableForPrimitiveNewtype nt g)) (r g)
                ''SizeBytes'' s') =
            result_of (call_method (out (emitMarshallableForPrimitiveNewtype nt g)) (r g)
                ''SizeBytes'' s)"
    using assms by (simp add: call_method_SizeBytes)
next
  fix s1
  assume c: "call_method (out (emitMarshallableForPrimitiveNewtype nt g)) (r g)
                ''SizeBytes'' s = Inr s1"
  then have "typeSizes s1 = typeSizes s"
    using exec_lines_typeSizes by (fastforce simp add: call_method_def)
  then have "result_of (call_method (out (emitMarshallableForPrimitiveNewtype nt g)) (r g)
                ''SizeBytes'' s1) =
      result_of (call_method (out (emitMarshallableForPrimitiveNewtype nt g)) (r g)
                ''SizeBytes'' s)"
    using assms by (simp add: call_method_SizeBytes)
  then show "result_of (call_method (out (emitMarshallableForPrimitiveNewtype nt g)) (r g)
                ''SizeBytes'' s1) = Inr (ret s1)"
    using c by (simp add: result_of_def)
next
  fix p
  assume p: "prim_of_name (Name nt) = Some p"
  show "result_of (call_method (out (emitMarshallableForPrimitiveNewtype nt g)) (r g)
                ''SizeBytes'' s) = Inr (Some (RInt (sizeof p)))"
    using assms by (simp add: call_method_SizeBytes scalarSize_prim [OF p])
  show "scalarSize nt = (sizeof p, False)"
    by (rule scalarSize_prim [OF p])
  show "sizeof p \<in> {1, 2, 4, 8}"
    by (rule sizeof_cases)
next
  assume "\<not> is_primitive (Name nt)"
  then show "result_of (call_method (out (emitMarshallableForPrimitiveNewtype nt g)) (r g)
                ''SizeBytes'' s) =
              (case typeSizes s (Name nt) of None \<Rightarrow> Inl GeneratedElsewhere
               | Some n \<Rightarrow> Inr (Some (RInt n)))"
    using assms by (simp add: call_method_SizeBytes scalarSize_other)
qed

theorem SizeBytes_constant_witness:
  "out (newInterfaceGenerator ''T'' ''x'' examplePositions) = []
   \<and> result_of (call_method
         (out (emitMarshallableForPrimitiveNewtype \<lparr>Name = ''uint32'', NamePos = 0\<rparr>
                (newInterfaceGenerator ''T'' ''x'' examplePositions)))
         ''x'' ''SizeBytes'' exampleState) = Inr (Some (RInt 4))"
proof -
  have e: "out (newInterfaceGenerator ''T'' ''x'' examplePositions) = []"
    by (simp add: newInterfaceGenerator_def recordUsedMarshallable_def)
  have rc: "r (newInterfaceGenerator ''T'' ''x'' examplePositions) = ''x''"
    by (simp add: newInterfaceGenerator_def recordUsedMarshallable_def)
  show ?thesis
    using SizeBytes_constant [OF e, of exampleState exampleState
        "\<lparr>Name = ''uint32'', NamePos = 0\<rparr>"] e
    by (simp add: rc)
qed


section \<open>Encoding and decoding scalars\<close>

lemma load_store_len: "length bs = n \<Longrightarrow> load (store m a bs) a n = bs"
  using load_store_same [of m a bs] by simp

lemma wire_roundtrip:
  "type_of v = p \<Longrightarrow> bytes_val bo p (load (store m d (val_bytes bo v)) d (sizeof p)) = v"
  using bytes_val_val_bytes [of bo v] by (simp add: load_store_len)

lemma host_bytes:
  "val_bytes h (read_scalar s a p) = load (mem s) a (sizeof p)"
  if "hostOrder s = h"
  using that by (simp add: read_scalar_def val_bytes_bytes_val)

text \<open>
  C3.  On the field-by-field path the bytes that \<open>marshalScalar\<close> writes for a scalar are
  the bytes of its value in the one order \<open>usermem.ByteOrder\<close>, whatever its width, and
  \<open>unmarshalScalar\<close> reads the value back from the buffer in that same order; the same
  holds for \<open>marshalPrimitiveScalar\<close> and \<open>unmarshalPrimitiveScalar\<close>.  A scalar of one
  byte is copied as it is: the byte in the buffer is the byte in the memory of the field,
  and the other way round.
\<close>

theorem scalars_use_one_byte_order:
  assumes "prim_of_name typ = Some p"
    and "scalars s x = Some (a, p)" and "ptrs s rc = Some (a, Some p)"
    and "slices s b = Some sl" and "sizeof p \<le> Len sl" and "Len sl \<le> Cap sl"
    and "ret s = None" and "prim_of_name tc = None" and "named s tc = Some p"
  shows "\<exists>s1 s2 s3 s4.
      exec_lines sb (emitted (marshalScalar x typ b) g) s = Inr s1
    \<and> exec_lines sb (emitted (marshalPrimitiveScalar rc typ b) g) s = Inr s2
    \<and> load (mem s1) (Data sl) (sizeof p) = val_bytes (byteOrder s) (read_scalar s a p)
    \<and> load (mem s2) (Data sl) (sizeof p) = val_bytes (byteOrder s) (read_scalar s a p)
    \<and> exec_lines sb (emitted (unmarshalScalar x typ b) g) s = Inr s3
    \<and> exec_lines sb (emitted (unmarshalPrimitiveScalar rc typ b tc) g) s = Inr s4
    \<and> read_scalar s3 a p = bytes_val (byteOrder s) p (load (mem s) (Data sl) (sizeof p))
    \<and> read_scalar s4 a p = bytes_val (byteOrder s) p (load (mem s) (Data sl) (sizeof p))
    \<and> (sizeof p = 1 \<longrightarrow>
          mem s1 (Data sl) = mem s a \<and> mem s2 (Data sl) = mem s a
        \<and> mem s3 a = mem s (Data sl) \<and> mem s4 a = mem s (Data sl))"
proof -
  let ?v = "read_scalar s a p"
  let ?w = "bytes_val (byteOrder s) p (load (mem s) (Data sl) (sizeof p))"
  let ?sh = "(slices s)(b \<mapsto>
      \<lparr>Data = Data sl + sizeof p, Len = Len sl - sizeof p, Cap = Cap sl - sizeof p\<rparr>)"
  let ?s1 = "s\<lparr>mem := store (mem s) (Data sl) (val_bytes (byteOrder s) ?v), slices := ?sh\<rparr>"
  let ?s2 = "s\<lparr>mem := store (mem s) (Data sl) (val_bytes (byteOrder s) ?v)\<rparr>"
  let ?s3 = "s\<lparr>mem := store (mem s) a (val_bytes (hostOrder s) ?w), slices := ?sh\<rparr>"
  let ?s4 = "s\<lparr>mem := store (mem s) a (val_bytes (hostOrder s) ?w)\<rparr>"
  have e1: "exec_lines sb (emitted (marshalScalar x typ b) g) s = Inr ?s1"
    using exec_marshalScalar [OF assms(1,2,4,5,6,7)] by (simp add: emitted_lines_of)
  have e2: "exec_lines sb (emitted (marshalPrimitiveScalar rc typ b) g) s = Inr ?s2"
    using exec_marshalPrimitiveScalar [OF assms(1,3,4,5,6,7)] by (simp add: emitted_lines_of)
  have e3: "exec_lines sb (emitted (unmarshalScalar x typ b) g) s = Inr ?s3"
    using exec_unmarshalScalar [OF assms(1,2,4,5,6,7)] by (simp add: emitted_lines_of)
  have e4: "exec_lines sb (emitted (unmarshalPrimitiveScalar rc typ b tc) g) s = Inr ?s4"
    using exec_unmarshalPrimitiveScalar [OF assms(1,3,4,5,6,7,8,9)]
    by (simp add: emitted_lines_of)
  have lv: "length (val_bytes (byteOrder s) ?v) = sizeof p" by simp
  have l12: "load (store (mem s) (Data sl) (val_bytes (byteOrder s) ?v)) (Data sl) (sizeof p) =
      val_bytes (byteOrder s) ?v"
    by (rule load_store_len [OF lv])
  have tw: "type_of ?w = p" by simp
  have r34: "bytes_val (hostOrder s) p
      (load (store (mem s) a (val_bytes (hostOrder s) ?w)) a (sizeof p)) = ?w"
    by (rule wire_roundtrip [OF tw])
  have one: "sizeof p = 1 \<longrightarrow>
      store (mem s) (Data sl) (val_bytes (byteOrder s) ?v) (Data sl) = mem s a
    \<and> store (mem s) a (val_bytes (hostOrder s) ?w) a = mem s (Data sl)"
    by (cases p) (simp_all add: read_scalar_def PutUint_1 GetUint_1 load_Suc_0 store_single)
  show ?thesis
    apply (rule exI [of _ ?s1], rule exI [of _ ?s2], rule exI [of _ ?s3], rule exI [of _ ?s4])
    using e1 e2 e3 e4 l12 r34 one by (simp add: read_scalar_def)
qed

theorem scalars_use_one_byte_order_witness:
  "prim_of_name ''uint32'' = Some Uint32
   \<and> scalars exampleState ''s.n'' = Some (100, Uint32)
   \<and> ptrs exampleState ''x'' = Some (100, Some Uint32)
   \<and> slices exampleState ''dst'' = Some \<lparr>Data = 200, Len = 4, Cap = 4\<rparr>
   \<and> ret exampleState = None \<and> prim_of_name ''T'' = None
   \<and> named exampleState ''T'' = Some Uint32
   \<and> (\<exists>s1. exec_lines (\<lambda>a. None)
          (emitted (marshalScalar ''s.n'' ''uint32'' ''dst'')
             (newInterfaceGenerator ''S'' ''s'' examplePositions)) exampleState = Inr s1
        \<and> load (mem s1) 200 4 = [0x78, 0x56, 0x34, 0x12])"
proof -
  have "\<exists>s1 s2 s3 s4.
      exec_lines (\<lambda>a. None) (emitted (marshalScalar ''s.n'' ''uint32'' ''dst'')
         (newInterfaceGenerator ''S'' ''s'' examplePositions)) exampleState = Inr s1
    \<and> exec_lines (\<lambda>a. None) (emitted (marshalPrimitiveScalar ''x'' ''uint32'' ''dst'')
         (newInterfaceGenerator ''S'' ''s'' examplePositions)) exampleState = Inr s2
    \<and> load (mem s1) (Data \<lparr>Data = 200, Len = 4, Cap = 4\<rparr>) (sizeof Uint32) =
        val_bytes (byteOrder exampleState) (read_scalar exampleState 100 Uint32)
    \<and> load (mem s2) (Data \<lparr>Data = 200, Len = 4, Cap = 4\<rparr>) (sizeof Uint32) =
        val_bytes (byteOrder exampleState) (read_scalar exampleState 100 Uint32)
    \<and> exec_lines (\<lambda>a. None) (emitted (unmarshalScalar ''s.n'' ''uint32'' ''dst'')
         (newInterfaceGenerator ''S'' ''s'' examplePositions)) exampleState = Inr s3
    \<and> exec_lines (\<lambda>a. None) (emitted (unmarshalPrimitiveScalar ''x'' ''uint32'' ''dst'' ''T'')
         (newInterfaceGenerator ''S'' ''s'' examplePositions)) exampleState = Inr s4
    \<and> read_scalar s3 100 Uint32 = bytes_val (byteOrder exampleState) Uint32
         (load (mem exampleState) (Data \<lparr>Data = 200, Len = 4, Cap = 4\<rparr>) (sizeof Uint32))
    \<and> read_scalar s4 100 Uint32 = bytes_val (byteOrder exampleState) Uint32
         (load (mem exampleState) (Data \<lparr>Data = 200, Len = 4, Cap = 4\<rparr>) (sizeof Uint32))
    \<and> (sizeof Uint32 = 1 \<longrightarrow>
          mem s1 (Data \<lparr>Data = 200, Len = 4, Cap = 4\<rparr>) = mem exampleState 100
        \<and> mem s2 (Data \<lparr>Data = 200, Len = 4, Cap = 4\<rparr>) = mem exampleState 100
        \<and> mem s3 100 = mem exampleState (Data \<lparr>Data = 200, Len = 4, Cap = 4\<rparr>)
        \<and> mem s4 100 = mem exampleState (Data \<lparr>Data = 200, Len = 4, Cap = 4\<rparr>))"
    by (rule scalars_use_one_byte_order [OF example_facts(1,2,4,5) _ _ example_facts(6,7,8)])
       simp_all
  then obtain s1 where
    "exec_lines (\<lambda>a. None) (emitted (marshalScalar ''s.n'' ''uint32'' ''dst'')
         (newInterfaceGenerator ''S'' ''s'' examplePositions)) exampleState = Inr s1"
    "load (mem s1) (Data \<lparr>Data = 200, Len = 4, Cap = 4\<rparr>) (sizeof Uint32) =
        val_bytes (byteOrder exampleState) (read_scalar exampleState 100 Uint32)"
    by blast
  then show ?thesis
    using example_facts by (simp add: example_value example_bytes)
qed

section \<open>Round trips\<close>

lemma call_MarshalBytes:
  assumes "out g = []" "prim_of_name (Name nt) = Some p" "ptrs s (r g) = Some (a, Some p)"
    "slices s ''dst'' = Some sl" "sizeof p \<le> Len sl" "Len sl \<le> Cap sl"
  shows "call_method (out (emitMarshallableForPrimitiveNewtype nt g)) (r g) ''MarshalBytes'' s =
    Inr (s\<lparr>mem := store (mem s) (Data sl) (val_bytes (byteOrder s) (read_scalar s a p)),
           ret := None\<rparr>)"
proof -
  have "exec_lines sb (lines_of (marshalPrimitiveScalar (r g) (Name nt) ''dst''))
      (s\<lparr>ret := None\<rparr>) =
    Inr (s\<lparr>ret := None\<rparr>\<lparr>mem := store (mem (s\<lparr>ret := None\<rparr>)) (Data sl)
      (val_bytes (byteOrder (s\<lparr>ret := None\<rparr>)) (read_scalar (s\<lparr>ret := None\<rparr>) a p))\<rparr>)"
    for sb
    by (rule exec_marshalPrimitiveScalar [OF assms(2)]) (use assms in simp_all)
  then show ?thesis
    using assms(1) by (simp add: call_method_def body_MarshalBytes read_scalar_def)
qed

lemma call_UnmarshalBytes:
  assumes "out g = []" "prim_of_name (Name nt) = Some p" "ptrs s (r g) = Some (a, Some p)"
    "slices s ''src'' = Some sl" "sizeof p \<le> Len sl" "Len sl \<le> Cap sl"
    "prim_of_name (t g) = None" "named s (t g) = Some p"
  shows "call_method (out (emitMarshallableForPrimitiveNewtype nt g)) (r g) ''UnmarshalBytes'' s =
    Inr (s\<lparr>mem := store (mem s) a
             (val_bytes (hostOrder s)
                (bytes_val (byteOrder s) p (load (mem s) (Data sl) (sizeof p)))),
           ret := None\<rparr>)"
proof -
  have "exec_lines sb (lines_of (unmarshalPrimitiveScalar (r g) (Name nt) ''src'' (t g)))
      (s\<lparr>ret := None\<rparr>) =
    Inr (s\<lparr>ret := None\<rparr>\<lparr>mem := store (mem (s\<lparr>ret := None\<rparr>)) a
      (val_bytes (hostOrder (s\<lparr>ret := None\<rparr>))
         (bytes_val (byteOrder (s\<lparr>ret := None\<rparr>)) p
            (load (mem (s\<lparr>ret := None\<rparr>)) (Data sl) (sizeof p))))\<rparr>)"
    for sb
    by (rule exec_unmarshalPrimitiveScalar [OF assms(2)]) (use assms in simp_all)
  then show ?thesis
    using assms(1) by (simp add: call_method_def body_UnmarshalBytes)
qed

lemma decode_encoded:
  assumes "hostOrder s = h"
  shows "val_bytes h (bytes_val bo p
      (load (store m d (val_bytes bo (read_scalar s a p))) d (sizeof p))) =
    load (mem s) a (sizeof p)"
proof -
  have "bytes_val bo p (load (store m d (val_bytes bo (read_scalar s a p))) d (sizeof p)) =
      read_scalar s a p"
    by (rule wire_roundtrip) simp
  then show ?thesis using assms by (simp add: host_bytes)
qed

text \<open>
  C1.  Decoding inverts encoding, for each of the nine fixed-width scalar types.  The lines
  of \<open>marshalScalar\<close> run on a field \<open>x\<close> and a buffer, followed by the lines of
  \<open>unmarshalScalar\<close> run on a field \<open>y\<close> of the same type and the same buffer, leave in
  \<open>y\<close> the value that \<open>x\<close> had, byte for byte.  The same holds for the \<open>MarshalBytes\<close>
  and \<open>UnmarshalBytes\<close> emitted for a newtype on such a scalar, from one instance to
  another.
\<close>

theorem unmarshal_inverts_marshal:
  assumes "prim_of_name typ = Some p"
    and "scalars s x = Some (ax, p)" and "scalars s y = Some (ay, p)"
    and "slices s ''dst'' = Some sl" and "sizeof p \<le> Len sl" and "Len sl \<le> Cap sl"
    and "ret s = None"
    and "out g = []" and "Name nt = typ" and "ptrs s (r g) = Some (ax, Some p)"
    and "prim_of_name (t g) = None" and "named s (t g) = Some p"
  shows "(\<exists>s1 s2.
        exec_lines sb (emitted (marshalScalar x typ ''dst'') g') s = Inr s1
      \<and> exec_lines sb (emitted (unmarshalScalar y typ ''src'') g')
            (s1\<lparr>slices := (slices s1)(''src'' \<mapsto> sl)\<rparr>) = Inr s2
      \<and> read_scalar s2 ay p = read_scalar s ax p
      \<and> load (mem s2) ay (sizeof p) = load (mem s) ax (sizeof p))
    \<and> (\<exists>s1 s2.
        call_method (out (emitMarshallableForPrimitiveNewtype nt g)) (r g) ''MarshalBytes'' s
          = Inr s1
      \<and> call_method (out (emitMarshallableForPrimitiveNewtype nt g)) (r g) ''UnmarshalBytes''
            (s1\<lparr>ptrs := (ptrs s1)(r g \<mapsto> (ay, Some p)),
                 slices := (slices s1)(''src'' \<mapsto> sl)\<rparr>) = Inr s2
      \<and> read_scalar s2 ay p = read_scalar s ax p
      \<and> load (mem s2) ay (sizeof p) = load (mem s) ax (sizeof p))"
proof -
  let ?m1 = "store (mem s) (Data sl) (val_bytes (byteOrder s) (read_scalar s ax p))"
  let ?bs = "val_bytes (hostOrder s) (bytes_val (byteOrder s) p (load ?m1 (Data sl) (sizeof p)))"
  have bs: "?bs = load (mem s) ax (sizeof p)"
    by (rule decode_encoded) simp
  have len: "length (load (mem s) ax (sizeof p)) = sizeof p" by simp
  have again: "load (store ?m1 ay (load (mem s) ax (sizeof p))) ay (sizeof p) =
      load (mem s) ax (sizeof p)"
    by (rule load_store_len [OF len])
  \<comment> \<open>the fields\<close>
  let ?s1 = "s\<lparr>mem := ?m1,
      slices := (slices s)(''dst'' \<mapsto>
        \<lparr>Data = Data sl + sizeof p, Len = Len sl - sizeof p, Cap = Cap sl - sizeof p\<rparr>)\<rparr>"
  let ?s1' = "?s1\<lparr>slices := (slices ?s1)(''src'' \<mapsto> sl)\<rparr>"
  let ?s2 = "?s1'\<lparr>mem := store (mem ?s1') ay
        (val_bytes (hostOrder ?s1')
           (bytes_val (byteOrder ?s1') p (load (mem ?s1') (Data sl) (sizeof p)))),
      slices := (slices ?s1')(''src'' \<mapsto>
        \<lparr>Data = Data sl + sizeof p, Len = Len sl - sizeof p, Cap = Cap sl - sizeof p\<rparr>)\<rparr>"
  have f1: "exec_lines sb (emitted (marshalScalar x typ ''dst'') g') s = Inr ?s1"
    using exec_marshalScalar [OF assms(1,2,4,5,6,7)] by (simp add: emitted_lines_of)
  have f2: "exec_lines sb (emitted (unmarshalScalar y typ ''src'') g') ?s1' = Inr ?s2"
    unfolding emitted_lines_of [OF appends_scalars(2)]
    by (rule exec_unmarshalScalar [OF assms(1)]) (use assms in simp_all)
  have f3: "load (mem ?s2) ay (sizeof p) = load (mem s) ax (sizeof p)"
    using bs again by simp
  have f4: "read_scalar ?s2 ay p = read_scalar s ax p"
    using f3 by (simp add: read_scalar_def)
  \<comment> \<open>the newtype\<close>
  let ?n1 = "s\<lparr>mem := ?m1, ret := None\<rparr>"
  let ?n1' = "?n1\<lparr>ptrs := (ptrs ?n1)(r g \<mapsto> (ay, Some p)),
      slices := (slices ?n1)(''src'' \<mapsto> sl)\<rparr>"
  let ?n2 = "?n1'\<lparr>mem := store (mem ?n1') ay
        (val_bytes (hostOrder ?n1')
           (bytes_val (byteOrder ?n1') p (load (mem ?n1') (Data sl) (sizeof p)))),
      ret := None\<rparr>"
  have p': "prim_of_name (Name nt) = Some p" using assms(1,9) by simp
  have n1: "call_method (out (emitMarshallableForPrimitiveNewtype nt g)) (r g)
      ''MarshalBytes'' s = Inr ?n1"
    by (rule call_MarshalBytes [OF assms(8) p' assms(10,4,5,6)])
  have n2: "call_method (out (emitMarshallableForPrimitiveNewtype nt g)) (r g)
      ''UnmarshalBytes'' ?n1' = Inr ?n2"
    by (rule call_UnmarshalBytes [OF assms(8) p']) (use assms in simp_all)
  have n3: "load (mem ?n2) ay (sizeof p) = load (mem s) ax (sizeof p)"
    using bs again by simp
  have n4: "read_scalar ?n2 ay p = read_scalar s ax p"
    using n3 by (simp add: read_scalar_def)
  show ?thesis
  proof (intro conjI)
    show "\<exists>s1 s2.
        exec_lines sb (emitted (marshalScalar x typ ''dst'') g') s = Inr s1
      \<and> exec_lines sb (emitted (unmarshalScalar y typ ''src'') g')
            (s1\<lparr>slices := (slices s1)(''src'' \<mapsto> sl)\<rparr>) = Inr s2
      \<and> read_scalar s2 ay p = read_scalar s ax p
      \<and> load (mem s2) ay (sizeof p) = load (mem s) ax (sizeof p)"
      using f1 f2 f3 f4 by blast
    show "\<exists>s1 s2.
        call_method (out (emitMarshallableForPrimitiveNewtype nt g)) (r g) ''MarshalBytes'' s
          = Inr s1
      \<and> call_method (out (emitMarshallableForPrimitiveNewtype nt g)) (r g) ''UnmarshalBytes''
            (s1\<lparr>ptrs := (ptrs s1)(r g \<mapsto> (ay, Some p)),
                 slices := (slices s1)(''src'' \<mapsto> sl)\<rparr>) = Inr s2
      \<and> read_scalar s2 ay p = read_scalar s ax p
      \<and> load (mem s2) ay (sizeof p) = load (mem s) ax (sizeof p)"
      using n1 n2 n3 n4 by blast
  qed
qed
end
